theory Spec2Isabelle
  imports Complex_Main "HOL-Library.Sublist"
begin

section \<open>JavaScript strings and numbers, as far as App.tsx uses them\<close>

text \<open>
  A JavaScript string is modelled as a \<open>string\<close>: a list of 8-bit characters, read as
  the code units U+0000 to U+00FF. Every literal of App.tsx lies in that range. Strings
  with code units above U+00FF are outside the model.
\<close>

text \<open>\<open>String.prototype.toLowerCase\<close> on that range: A-Z and the Latin-1 capitals
  U+00C0 to U+00DE (without the multiplication sign U+00D7) move up by 32.\<close>

definition toLowerChar :: "char \<Rightarrow> char" where
  "toLowerChar c =
     (let n = (of_char c :: nat) in
      if (65 \<le> n \<and> n \<le> 90) \<or> (192 \<le> n \<and> n \<le> 222 \<and> n \<noteq> 215)
      then char_of (n + 32) else c)"

definition toLowerCase :: "string \<Rightarrow> string" where
  "toLowerCase s = map toLowerChar s"

text \<open>\<open>s.endsWith(t)\<close> and \<open>s.includes(t)\<close>.\<close>

definition endsWith :: "string \<Rightarrow> string \<Rightarrow> bool" where
  "endsWith s t = suffix t s"

fun includesStr :: "string \<Rightarrow> string \<Rightarrow> bool" where
  "includesStr [] t = (t = [])"
| "includesStr (c # cs) t = (prefix t (c # cs) \<or> includesStr cs t)"

text \<open>\<open>String.prototype.trim\<close>: white space and line terminators of the range are
  TAB, LF, VT, FF, CR, SPACE and NO-BREAK SPACE.\<close>

definition isWhiteSpace :: "char \<Rightarrow> bool" where
  "isWhiteSpace c =
     (c = CHR 0x09 \<or> c = CHR 0x0A \<or> c = CHR 0x0B \<or> c = CHR 0x0C \<or> c = CHR 0x0D
      \<or> c = CHR 0x20 \<or> c = CHR 0xA0)"

definition trim :: "string \<Rightarrow> string" where
  "trim s = rev (dropWhile isWhiteSpace (rev (dropWhile isWhiteSpace s)))"

text \<open>The decimal digits of a natural number, as a template literal prints an integral
  number such as \<open>response.status\<close> or \<open>Date.now()\<close>.\<close>

fun digits :: "nat \<Rightarrow> string" where
  "digits n =
     (if n < 10 then [''0123456789'' ! n]
      else digits (n div 10) @ [''0123456789'' ! (n mod 10)])"

declare digits.simps [simp del]

section \<open>Constants and data (App.tsx, lines 3 to 20)\<close>

definition MAX_FILE_SIZE :: nat where
  "MAX_FILE_SIZE = 15 * 1024 * 1024"

definition TRAIL_LENGTH :: nat where
  "TRAIL_LENGTH = 6"

datatype UploadState = Idle | Uploading | Success | Error

record UploadError =
  message :: string
  details :: "string option"

text \<open>Of a browser \<open>File\<close> the code reads \<open>name\<close> and \<open>size\<close> (a byte count).\<close>

record File =
  name :: string
  fsize :: nat

text \<open>The four \<open>useState\<close> cells of the upload form.\<close>

record App =
  selectedFile :: "File option"
  state :: UploadState
  error :: "UploadError option"
  successMessage :: "string option"

definition initialApp :: App where
  "initialApp = \<lparr>selectedFile = None, state = Idle, error = None, successMessage = None\<rparr>"

section \<open>formatBytes (lines 22 to 28)\<close>

text \<open>
  \<open>Math.floor(Math.log(bytes) / Math.log(k))\<close> for a positive integer: the number of
  times \<open>bytes\<close> can be divided by \<open>k\<close> before it drops below \<open>k\<close>. The source
  computes it in doubles; the two agree unless the quotient of the logarithms rounds
  across an integer, which for \<open>k = 1024\<close> needs a size within a factor
  \<open>1 + 2^-40\<close> or so of a power of 1024, and \<open>MAX_FILE_SIZE\<close> is far from one.
\<close>

function floorLog :: "nat \<Rightarrow> nat \<Rightarrow> nat" where
  "floorLog k n = (if k < 2 \<or> n < k then 0 else Suc (floorLog k (n div k)))"
  by pat_completeness auto
termination
  by (relation "measure (\<lambda>(k, n). n)") auto

declare floorLog.simps [simp del]

text \<open>
  \<open>(num / den).toFixed(2)\<close>: the integer \<open>n\<close> with \<open>n / 100\<close> nearest to the quotient,
  the larger one at a tie, printed with two decimals. Dividing a size below \<open>2^53\<close> by
  a power of 1024 is exact in doubles, so the quotient here is the double's value.
\<close>

definition toFixed2 :: "nat \<Rightarrow> nat \<Rightarrow> string" where
  "toFixed2 num den =
     (let n = (200 * num + den) div (2 * den)
      in digits (n div 100) @ ''.'' @ digits (n mod 100 div 10) @ digits (n mod 10))"

definition formatBytes :: "nat \<Rightarrow> string" where
  "formatBytes bytes =
     (if bytes = 0 then ''0 B''
      else
        let k = 1024;
            sizes = [''B'', ''KB'', ''MB'', ''GB''];
            i = floorLog k bytes
        in toFixed2 bytes (k ^ i) @ '' ''
             @ (if i < length sizes then sizes ! i else ''undefined''))"

section \<open>handleFileChange (lines 88 to 110)\<close>

text \<open>
  The handler receives the first file of the input control, if any
  (\<open>event.target.files?.[0]\<close>). It returns the new cells and what the input control
  holds afterwards: \<open>event.target.value = ""\<close> empties it.
\<close>

definition validExtension :: "File \<Rightarrow> bool" where
  "validExtension file =
     (endsWith (toLowerCase (name file)) ''.xml'' \<or> endsWith (toLowerCase (name file)) ''.xbrl'')"

definition handleFileChange :: "File option \<Rightarrow> App \<Rightarrow> App \<times> File option" where
  "handleFileChange chosen s =
     (let s1 = s\<lparr>error := None, successMessage := None\<rparr> in
      case chosen of
        None \<Rightarrow> (s1\<lparr>selectedFile := None\<rparr>, None)
      | Some file \<Rightarrow>
          if \<not> endsWith (toLowerCase (name file)) ''.xml''
             \<and> \<not> endsWith (toLowerCase (name file)) ''.xbrl''
          then (s1\<lparr>error := Some \<lparr>message = ''Only .xml or .xbrl files are supported.'',
                                    details = None\<rparr>\<rparr>, None)
          else if fsize file > MAX_FILE_SIZE
          then (s1\<lparr>error := Some \<lparr>message = ''File exceeds the '' @ formatBytes MAX_FILE_SIZE
                                                @ '' limit.'',
                                    details = None\<rparr>\<rparr>, None)
          else (s1\<lparr>selectedFile := Some file\<rparr>, Some file))"

section \<open>The error response body (lines 132 to 157)\<close>

text \<open>
  What \<open>response.json()\<close> resolves to: a parsed JSON value. An object is the list of
  its entries in enumeration order, with distinct keys. Numbers are modelled at the
  integers (an integer literal below \<open>2^53\<close> in magnitude parses to itself and
  prints as its decimal digits); fractional numbers are outside the model.
\<close>

datatype json =
    JNull
  | JBool bool
  | JNum int
  | JStr string
  | JArr "json list"
  | JObj "(string \<times> json) list"

text \<open>\<open>JSON.stringify\<close>: strings are quoted with the escapes of QuoteJSONString.\<close>

definition hexDigit :: "nat \<Rightarrow> char" where
  "hexDigit n = ''0123456789abcdef'' ! n"

definition escapeChar :: "char \<Rightarrow> string" where
  "escapeChar c =
     (if c = CHR 0x22 then [CHR 0x5C, CHR 0x22]
      else if c = CHR 0x5C then [CHR 0x5C, CHR 0x5C]
      else if c = CHR 0x08 then [CHR 0x5C, CHR ''b'']
      else if c = CHR 0x09 then [CHR 0x5C, CHR ''t'']
      else if c = CHR 0x0A then [CHR 0x5C, CHR ''n'']
      else if c = CHR 0x0C then [CHR 0x5C, CHR ''f'']
      else if c = CHR 0x0D then [CHR 0x5C, CHR ''r'']
      else if (of_char c :: nat) < 32
      then [CHR 0x5C, CHR ''u'', CHR ''0'', CHR ''0'',
            hexDigit ((of_char c :: nat) div 16), hexDigit ((of_char c :: nat) mod 16)]
      else [c])"

definition quoteJSONString :: "string \<Rightarrow> string" where
  "quoteJSONString s = [CHR 0x22] @ concat (map escapeChar s) @ [CHR 0x22]"

fun joinComma :: "string list \<Rightarrow> string" where
  "joinComma [] = []"
| "joinComma [s] = s"
| "joinComma (s # t # ts) = s @ '','' @ joinComma (t # ts)"

definition showInt :: "int \<Rightarrow> string" where
  "showInt n = (if n < 0 then ''-'' @ digits (nat (- n)) else digits (nat n))"

fun JSON_stringify :: "json \<Rightarrow> string" where
  "JSON_stringify JNull = ''null''"
| "JSON_stringify (JBool b) = (if b then ''true'' else ''false'')"
| "JSON_stringify (JNum n) = showInt n"
| "JSON_stringify (JStr s) = quoteJSONString s"
| "JSON_stringify (JArr vs) = ''['' @ joinComma (map JSON_stringify vs) @ '']''"
| "JSON_stringify (JObj kvs) =
     ''{'' @ joinComma (map (\<lambda>kv. quoteJSONString (fst kv) @ '':'' @ JSON_stringify (snd kv)) kvs)
       @ ''}''"

text \<open>The truth value of a parsed value in a condition (ToBoolean).\<close>

fun truthy :: "json \<Rightarrow> bool" where
  "truthy JNull = False"
| "truthy (JBool b) = b"
| "truthy (JNum n) = (n \<noteq> 0)"
| "truthy (JStr s) = (s \<noteq> [])"
| "truthy (JArr vs) = True"
| "truthy (JObj kvs) = True"

text \<open>\<open>payload?.detail\<close>: the entry of an object; \<open>undefined\<close> (here \<open>None\<close>) for an
  object without it and for every other value.\<close>

fun detailOf :: "json \<Rightarrow> json option" where
  "detailOf (JObj kvs) = map_of kvs ''detail''"
| "detailOf v = None"

text \<open>
  An awaited promise resolves or rejects; what it throws is an \<open>Error\<close> with its
  message, or some other value.
\<close>

datatype thrown = JsError string | OtherThrown

datatype 'a awaited = Resolved 'a | Rejected thrown

type_synonym Blob = string

text \<open>
  Of a \<open>Response\<close> the code reads the status, two headers (\<open>headers.get\<close> gives
  \<open>null\<close>, here \<open>None\<close>, for a missing one) and one of the three body readers.
\<close>

record Response =
  status :: nat
  contentType :: "string option"
  contentDisposition :: "string option"
  jsonBody :: "json awaited"
  textBody :: "string awaited"
  blobBody :: "Blob awaited"

definition ok :: "Response \<Rightarrow> bool" where
  "ok response = (200 \<le> status response \<and> status response \<le> 299)"

datatype Effect =
    Fetch string string File
  | Download string Blob
  | ConsoleWarn
  | ConsoleError

definition genericMessage :: "Response \<Rightarrow> string" where
  "genericMessage response =
     ''Failed to convert XBRL file (status '' @ digits (status response) @ '')''"

definition isJson :: "Response \<Rightarrow> bool" where
  "isJson response =
     includesStr (case contentType response of None \<Rightarrow> [] | Some c \<Rightarrow> c) ''application/json''"

text \<open>Lines 138 to 146, for a parsed payload; \<open>msg\<close> (the source's \<open>message\<close>) holds the generic text.\<close>

definition classifyPayload :: "string \<Rightarrow> json \<Rightarrow> string" where
  "classifyPayload msg payload =
     (if (case payload of JStr p \<Rightarrow> trim p \<noteq> [] | _ \<Rightarrow> False)
      then (case payload of JStr p \<Rightarrow> trim p | _ \<Rightarrow> msg)
      else if (case detailOf payload of None \<Rightarrow> False | Some detail \<Rightarrow> truthy detail)
      then (case detailOf payload of
              Some (JStr d) \<Rightarrow> d
            | Some detail \<Rightarrow> JSON_stringify detail
            | None \<Rightarrow> msg)
      else msg)"

text \<open>Lines 133 to 155: the message that line 156 throws, and what was logged.\<close>

definition failureMessage :: "Response \<Rightarrow> string \<times> Effect list" where
  "failureMessage response =
     (let msg = genericMessage response in
      if isJson response
      then (case jsonBody response of
              Rejected parseError \<Rightarrow> (msg, [ConsoleWarn])
            | Resolved payload \<Rightarrow> (classifyPayload msg payload, []))
      else (case textBody response of
              Rejected parseError \<Rightarrow> (msg, [ConsoleWarn])
            | Resolved body \<Rightarrow>
                let text = trim body in
                if text \<noteq> [] then (text, []) else (msg, [])))"

section \<open>The download name (lines 160 and 164)\<close>

text \<open>\<open>s.split(sep)\<close> for a non-empty separator: the pieces between its occurrences,
  found from the left.\<close>

function splitFrom :: "string \<Rightarrow> string \<Rightarrow> string \<Rightarrow> string list" where
  "splitFrom sep acc [] = [acc]"
| "splitFrom sep acc (c # cs) =
     (if sep \<noteq> [] \<and> prefix sep (c # cs)
      then acc # splitFrom sep [] (drop (length sep) (c # cs))
      else splitFrom sep (acc @ [c]) cs)"
  by pat_completeness auto
termination
  by (relation "measure (\<lambda>(sep, acc, s). length s)") (auto simp: Suc_diff_le)

definition split :: "string \<Rightarrow> string \<Rightarrow> string list" where
  "split s sep = splitFrom sep [] s"

text \<open>\<open>.replace(/"/g, "")\<close> removes every double quote.\<close>

definition removeQuotes :: "string \<Rightarrow> string" where
  "removeQuotes s = filter (\<lambda>c. c \<noteq> CHR 0x22) s"

definition suggestedFilename :: "Response \<Rightarrow> string option" where
  "suggestedFilename response =
     (case contentDisposition response of
        None \<Rightarrow> None
      | Some header \<Rightarrow>
          (case split header ''filename='' of
             first # second # rest \<Rightarrow> Some (removeQuotes second)
           | _ \<Rightarrow> None))"

text \<open>\<open>filename || `xbrl-export-${Date.now()}.xlsx`\<close>, with \<open>now\<close> for \<open>Date.now()\<close>.\<close>

definition downloadName :: "nat \<Rightarrow> Response \<Rightarrow> string" where
  "downloadName now response =
     (case suggestedFilename response of
        None \<Rightarrow> ''xbrl-export-'' @ digits now @ ''.xlsx''
      | Some filename \<Rightarrow>
          if filename \<noteq> [] then filename else ''xbrl-export-'' @ digits now @ ''.xlsx'')"

section \<open>handleSubmit (lines 112 to 177)\<close>

text \<open>
  The handler is asynchronous. \<open>handleSubmit_begin\<close> is what runs up to the
  \<open>await fetch\<close> (lines 113 to 130): it returns the cells and the request issued, if
  any. \<open>handleSubmit_resume\<close> is what runs once the fetch has settled (lines 132 to
  176), on the cells as they are then.
\<close>

definition endpoint :: string where
  "endpoint = ''/api/v1/files/xbrl-to-excel''"

definition handleSubmit_begin :: "App \<Rightarrow> App \<times> Effect list" where
  "handleSubmit_begin s =
     (let s1 = s\<lparr>error := None, successMessage := None\<rparr> in
      case selectedFile s of
        None \<Rightarrow>
          (s1\<lparr>error := Some \<lparr>message = ''Please choose an XBRL file before uploading.'',
                               details = None\<rparr>\<rparr>, [])
      | Some file \<Rightarrow> (s1\<lparr>state := Uploading\<rparr>, [Fetch endpoint ''file'' file]))"

text \<open>The \<open>catch (uploadError)\<close> block, lines 171 to 176.\<close>

definition catchUploadError :: "thrown \<Rightarrow> App \<Rightarrow> App \<times> Effect list" where
  "catchUploadError uploadError s =
     (let msg = (case uploadError of
                   JsError m \<Rightarrow> m
                 | OtherThrown \<Rightarrow> ''Unexpected error occurred.'')
      in (s\<lparr>error := Some \<lparr>message = msg, details = None\<rparr>, state := Error\<rparr>,
          [ConsoleError]))"

definition handleSubmit_resume :: "nat \<Rightarrow> Response awaited \<Rightarrow> App \<Rightarrow> App \<times> Effect list" where
  "handleSubmit_resume now fetched s =
     (case fetched of
        Rejected uploadError \<Rightarrow> catchUploadError uploadError s
      | Resolved response \<Rightarrow>
          if \<not> ok response
          then (let (msg, logged) = failureMessage response;
                    (s', effects) = catchUploadError (JsError msg) s
                in (s', logged @ effects))
          else (case blobBody response of
                  Rejected uploadError \<Rightarrow> catchUploadError uploadError s
                | Resolved blob \<Rightarrow>
                    (s\<lparr>successMessage := Some ''Excel workbook downloaded successfully.'',
                       state := Success\<rparr>,
                     [Download (downloadName now response) blob])))"

text \<open>One whole run against a server that settles the request at once.\<close>

definition handleSubmit :: "nat \<Rightarrow> (File \<Rightarrow> Response awaited) \<Rightarrow> App \<Rightarrow> App \<times> Effect list" where
  "handleSubmit now server s =
     (case handleSubmit_begin s of
        (s1, [Fetch url field file]) \<Rightarrow>
          (let (s2, effects) = handleSubmit_resume now (server file) s1
           in (s2, Fetch url field file # effects))
      | (s1, effects) \<Rightarrow> (s1, effects))"



section \<open>The page as a sequence of events\<close>






section \<open>The trail animation (lines 36 to 73)\<close>

text \<open>
  JavaScript numbers are IEEE doubles. The animation is modelled in exact real
  arithmetic: \<open>+\<close>, \<open>-\<close> and \<open>*\<close> below are the operations of the reals, without the
  rounding of the doubles. The fields \<open>x\<close> and \<open>y\<close> of a trail point are named
  \<open>px\<close> and \<open>py\<close>, those of the pointer target \<open>tx\<close> and \<open>ty\<close>.
\<close>

record TrailPoint =
  px :: real
  py :: real
  opacity :: real

record PointerTarget =
  tx :: real
  ty :: real
  active :: bool

definition initialTrail :: "TrailPoint list" where
  "initialTrail = replicate TRAIL_LENGTH \<lparr>px = 0, py = 0, opacity = 0\<rparr>"

text \<open>The variables the loop of \<open>animate\<close> carries: \<open>next\<close>, \<open>leadX\<close>, \<open>leadY\<close>.\<close>

record LoopVars =
  nextTrail :: "TrailPoint list"
  leadX :: real
  leadY :: real

text \<open>The loop body, lines 57 to 66. \<open>prev[index]\<close> out of range is \<open>undefined\<close>,
  and reading \<open>point.x\<close> then throws: \<open>None\<close>.\<close>

definition animateBody :: "PointerTarget \<Rightarrow> TrailPoint list \<Rightarrow> nat \<Rightarrow> LoopVars \<Rightarrow> LoopVars option" where
  "animateBody target prev index v =
     (if index < length prev
      then
        (let point = prev ! index;
             ease = (if index = 0 then 0.2 else 0.24);
             x = px point + (leadX v - px point) * ease;
             y = py point + (leadY v - py point) * ease;
             opacityTarget = (if active target then max 0 (0.85 - real index * 0.13) else 0);
             opacity' = opacity point + (opacityTarget - opacity point) * 0.18
         in Some \<lparr>nextTrail = (nextTrail v)[index := \<lparr>px = x, py = y, opacity = opacity'\<rparr>],
                   leadX = x, leadY = y\<rparr>)
      else None)"

function animateLoop :: "PointerTarget \<Rightarrow> TrailPoint list \<Rightarrow> nat \<Rightarrow> LoopVars \<Rightarrow> LoopVars option" where
  "animateLoop target prev index v =
     (if index < TRAIL_LENGTH
      then (case animateBody target prev index v of
              None \<Rightarrow> None
            | Some v' \<Rightarrow> animateLoop target prev (index + 1) v')
      else Some v)"
  by pat_completeness auto
termination
  by (relation "measure (\<lambda>(target, prev, index, v). TRAIL_LENGTH - index)") auto

declare animateLoop.simps [simp del]

text \<open>The updater passed to \<open>setTrail\<close>, lines 51 to 70.\<close>

definition animate :: "PointerTarget \<Rightarrow> TrailPoint list \<Rightarrow> TrailPoint list option" where
  "animate target prev =
     map_option nextTrail
       (animateLoop target prev 0 \<lparr>nextTrail = prev, leadX = tx target, leadY = ty target\<rparr>)"


text \<open>
  Vocabulary for the facts about a step (not functions of the source): the lead of
  element \<open>i\<close>, read off the chain \<open>new\<close> that the step returns, and the easing
  factor and the opacity target of element \<open>i\<close>.
\<close>

definition leadOf :: "(TrailPoint \<Rightarrow> real) \<Rightarrow> real \<Rightarrow> TrailPoint list \<Rightarrow> nat \<Rightarrow> real" where
  "leadOf coord pointer new i = (if i = 0 then pointer else coord (new ! (i - 1)))"

definition easeOf :: "nat \<Rightarrow> real" where
  "easeOf i = (if i = 0 then 0.20 else 0.24)"

definition opacityTargetOf :: "bool \<Rightarrow> nat \<Rightarrow> real" where
  "opacityTargetOf act i = (if act then max 0 (0.85 - real i * 0.13) else 0)"

text \<open>
  \<open>eased\<close> relates an element before and after a step, with \<open>lx\<close> and \<open>ly\<close> for
  its lead: the three assignments of lines 59 to 62. \<open>between\<close> says that a new
  coordinate lies between the old one and the lead.
\<close>

definition eased :: "PointerTarget \<Rightarrow> nat \<Rightarrow> TrailPoint \<Rightarrow> real \<Rightarrow> real \<Rightarrow> TrailPoint \<Rightarrow> bool" where
  "eased target i old lx ly new =
     (px new = px old + (lx - px old) * easeOf i
      \<and> py new = py old + (ly - py old) * easeOf i
      \<and> opacity new = opacity old + (opacityTargetOf (active target) i - opacity old) * 0.18)"



section \<open>Example responses and cells\<close>

text \<open>A JSON error response, a plain-text error response, a success response, and the
  cells once a file has been chosen. A body can be read once: the readers the handler
  does not use are given as rejecting.\<close>

definition jsonErrorResponse :: "nat \<Rightarrow> json \<Rightarrow> Response" where
  "jsonErrorResponse code payload =
     \<lparr>status = code, contentType = Some ''application/json'', contentDisposition = None,
      jsonBody = Resolved payload, textBody = Rejected (JsError ''body stream already read''),
      blobBody = Rejected (JsError ''body stream already read'')\<rparr>"

definition textErrorResponse :: "nat \<Rightarrow> string \<Rightarrow> Response" where
  "textErrorResponse code body =
     \<lparr>status = code, contentType = Some ''text/plain; charset=utf-8'', contentDisposition = None,
      jsonBody = Rejected (JsError ''Unexpected token''), textBody = Resolved body,
      blobBody = Rejected (JsError ''body stream already read'')\<rparr>"

definition successResponse :: "string option \<Rightarrow> Blob \<Rightarrow> Response" where
  "successResponse header blob =
     \<lparr>status = 200,
      contentType = Some ''application/vnd.openxmlformats-officedocument.spreadsheetml.sheet'',
      contentDisposition = header,
      jsonBody = Rejected (JsError ''body stream already read''),
      textBody = Rejected (JsError ''body stream already read''),
      blobBody = Resolved blob\<rparr>"

text \<open>A server that answers every request with the given response, and one that
  cannot be reached.\<close>

definition respondWith :: "Response \<Rightarrow> File \<Rightarrow> Response awaited" where
  "respondWith response file = Resolved response"

definition networkDown :: "File \<Rightarrow> Response awaited" where
  "networkDown file = Rejected (JsError ''Failed to fetch'')"

definition chosenApp :: App where
  "chosenApp = \<lparr>selectedFile = Some \<lparr>name = ''report.xml'', fsize = 1\<rparr>, state = Idle,
                 error = None, successMessage = None\<rparr>"





section \<open>Facts about choosing a file\<close>

lemma floorLog_MAX_FILE_SIZE: "floorLog 1024 15728640 = 2"
  by (simp add: floorLog.simps)

lemma digits_15_0: "digits 15 = ''15''" "digits 0 = ''0''"
  by (simp_all add: digits.simps)

lemma toFixed2_MAX_FILE_SIZE: "toFixed2 15728640 1048576 = ''15.00''"
  by (simp add: toFixed2_def Let_def digits_15_0)

lemma formatBytes_MAX_FILE_SIZE: "formatBytes MAX_FILE_SIZE = ''15.00 MB''"
  by (simp add: formatBytes_def MAX_FILE_SIZE_def floorLog_MAX_FILE_SIZE
      toFixed2_MAX_FILE_SIZE Let_def)

lemma validExtension_iff:
  "validExtension file \<longleftrightarrow>
     \<not> (\<not> endsWith (toLowerCase (name file)) ''.xml''
        \<and> \<not> endsWith (toLowerCase (name file)) ''.xbrl'')"
  by (simp add: validExtension_def)

text \<open>
  C10. A file with a valid extension whose size is exactly the limit,
  15 * 1024 * 1024 = 15728640 bytes, is accepted: it becomes the selected file and no
  error is set. The size check rejects only strictly greater sizes.
\<close>

theorem choose_at_limit_accepted:
  assumes "validExtension file" and "fsize file = 15 * 1024 * 1024"
  shows "handleFileChange (Some file) s
           = (s\<lparr>error := None, successMessage := None, selectedFile := Some file\<rparr>, Some file)
         \<and> selectedFile (fst (handleFileChange (Some file) s)) = Some file
         \<and> error (fst (handleFileChange (Some file) s)) = None
         \<and> MAX_FILE_SIZE = 15728640"
  using assms
  by (simp add: handleFileChange_def validExtension_def MAX_FILE_SIZE_def Let_def)

theorem choose_at_limit_accepted_witness:
  "validExtension \<lparr>name = ''report.xml'', fsize = 15728640\<rparr>
   \<and> fsize \<lparr>name = ''report.xml'', fsize = 15728640\<rparr> = 15 * 1024 * 1024
   \<and> selectedFile (fst (handleFileChange (Some \<lparr>name = ''report.xml'', fsize = 15728640\<rparr>)
        initialApp)) = Some \<lparr>name = ''report.xml'', fsize = 15728640\<rparr>
   \<and> error (fst (handleFileChange (Some \<lparr>name = ''report.xml'', fsize = 15728640\<rparr>)
        initialApp)) = None"
proof -
  let ?f = "\<lparr>name = ''report.xml'', fsize = 15728640\<rparr>"
  have v: "validExtension ?f"
    by (simp add: validExtension_def endsWith_def toLowerCase_def toLowerChar_def
        suffix_to_prefix)
  have z: "fsize ?f = 15 * 1024 * 1024" by simp
  from choose_at_limit_accepted [OF v z, of initialApp] v z show ?thesis by blast
qed

lemma toLowerCase_append: "toLowerCase (a @ b) = toLowerCase a @ toLowerCase b"
  by (simp add: toLowerCase_def)

lemma toLowerCase_report_XBRL: "toLowerCase ''report.XBRL'' = ''report.xbrl''"
  by code_simp

text \<open>What the handler does with a name that fails the extension check: the fixed
  message, the input control emptied, and the selected file as it was.\<close>

lemma bad_extension_rejected:
  assumes "\<not> validExtension file"
  shows "handleFileChange (Some file) s
           = (s\<lparr>error := Some \<lparr>message = ''Only .xml or .xbrl files are supported.'',
                                 details = None\<rparr>,
                successMessage := None\<rparr>, None)"
  using assms by (simp add: handleFileChange_def validExtension_def Let_def)

text \<open>The extension check ignores case: any spelling of \<open>.xml\<close> or \<open>.xbrl\<close> at the
  end of the name passes it.\<close>

lemma extension_check_ignores_case:
  assumes "toLowerCase ext = ''.xml'' \<or> toLowerCase ext = ''.xbrl''"
  shows "validExtension \<lparr>name = base @ ext, fsize = n\<rparr>"
  using assms by (auto simp: validExtension_def endsWith_def toLowerCase_append suffix_def)

lemma report_XBRL_accepted:
  "handleFileChange (Some \<lparr>name = ''report.XBRL'', fsize = 1\<rparr>) initialApp
     = (initialApp\<lparr>selectedFile := Some \<lparr>name = ''report.XBRL'', fsize = 1\<rparr>\<rparr>,
        Some \<lparr>name = ''report.XBRL'', fsize = 1\<rparr>)"
  by (simp add: handleFileChange_def Let_def endsWith_def toLowerCase_report_XBRL
      suffix_to_prefix MAX_FILE_SIZE_def initialApp_def)

text \<open>What the handler does with an oversized file: the message with the formatted
  limit, the input control emptied, and the selected file as it was.\<close>

lemma oversize_rejected:
  assumes "validExtension file" and "fsize file > 15 * 1024 * 1024"
  shows "handleFileChange (Some file) s
           = (s\<lparr>error := Some \<lparr>message = ''File exceeds the 15.00 MB limit.'',
                                 details = None\<rparr>,
                successMessage := None\<rparr>, None)"
  using assms formatBytes_MAX_FILE_SIZE
  by (auto simp add: handleFileChange_def validExtension_def Let_def MAX_FILE_SIZE_def)

text \<open>
  C4. Choosing a file whose lowercased name ends neither in \<open>.xml\<close> nor in \<open>.xbrl\<close>
  is rejected with the message "Only .xml or .xbrl files are supported.", and the
  claim has the selected file unset afterwards, a previously selected file included.
  The handler sets the message and empties the input control, and returns without
  touching the selected file: with \<open>old.xml\<close> selected, choosing \<open>report.pdf\<close> leaves
  \<open>old.xml\<close> selected. (Only the branch for no file at all clears it.)
\<close>

theorem invalid_choice_keeps_previous_file:
  "handleFileChange (Some \<lparr>name = ''report.pdf'', fsize = 1\<rparr>)
     (initialApp\<lparr>selectedFile := Some \<lparr>name = ''old.xml'', fsize = 1\<rparr>\<rparr>)
   = (initialApp\<lparr>selectedFile := Some \<lparr>name = ''old.xml'', fsize = 1\<rparr>,
                  error := Some \<lparr>message = ''Only .xml or .xbrl files are supported.'',
                                  details = None\<rparr>\<rparr>, None)"
  by (simp add: handleFileChange_def Let_def endsWith_def toLowerCase_def toLowerChar_def
      suffix_to_prefix initialApp_def)

text \<open>
  C5. Choosing a file with a valid extension and a size above 15 * 1024 * 1024 bytes
  is rejected with a message that contains the formatted limit "15.00 MB", and the
  claim has the selected file unset afterwards. The message is
  "File exceeds the 15.00 MB limit."; the selected file is left as it was: with
  \<open>old.xml\<close> selected, choosing a \<open>report.xml\<close> of 16 * 1024 * 1024 bytes leaves
  \<open>old.xml\<close> selected.
\<close>

theorem oversize_choice_keeps_previous_file:
  "handleFileChange (Some \<lparr>name = ''report.xml'', fsize = 16 * 1024 * 1024\<rparr>)
     (initialApp\<lparr>selectedFile := Some \<lparr>name = ''old.xml'', fsize = 1\<rparr>\<rparr>)
   = (initialApp\<lparr>selectedFile := Some \<lparr>name = ''old.xml'', fsize = 1\<rparr>,
                  error := Some \<lparr>message = ''File exceeds the 15.00 MB limit.'',
                                  details = None\<rparr>\<rparr>, None)"
  using formatBytes_MAX_FILE_SIZE
  by (simp add: handleFileChange_def Let_def endsWith_def toLowerCase_def toLowerChar_def
      suffix_to_prefix initialApp_def MAX_FILE_SIZE_def)

section \<open>Facts about submitting\<close>

text \<open>
  C1. A submit with no selected file fails at once with the message
  "Please choose an XBRL file before uploading.", issues no request (the run has no
  effect at all), and leaves the upload state as it was: from \<open>Idle\<close> it stays
  \<open>Idle\<close> and does not become \<open>Uploading\<close>.
\<close>

theorem submit_without_file:
  assumes "selectedFile s = None"
  shows "handleSubmit now server s
           = (s\<lparr>error := Some \<lparr>message = ''Please choose an XBRL file before uploading.'',
                                 details = None\<rparr>,
                successMessage := None\<rparr>, [])
         \<and> handleSubmit_begin s = handleSubmit now server s
         \<and> state (fst (handleSubmit now server s)) = state s"
  using assms by (simp add: handleSubmit_def handleSubmit_begin_def Let_def)

theorem submit_without_file_witness:
  "selectedFile initialApp = None
   \<and> handleSubmit 0 networkDown initialApp
       = (initialApp\<lparr>error := Some \<lparr>message = ''Please choose an XBRL file before uploading.'',
                                      details = None\<rparr>\<rparr>, [])
   \<and> state (fst (handleSubmit 0 networkDown initialApp)) = Idle"
proof -
  have n: "selectedFile initialApp = None"
    by (simp add: initialApp_def)
  from submit_without_file [OF n, of 0 networkDown] n
  show ?thesis by (simp add: initialApp_def)
qed













section \<open>Facts about the error message and the download name\<close>

lemma resume_failure:
  assumes "\<not> ok response"
  shows "handleSubmit_resume now (Resolved response) s
           = (s\<lparr>error := Some \<lparr>message = fst (failureMessage response), details = None\<rparr>,
                state := Error\<rparr>,
              snd (failureMessage response) @ [ConsoleError])"
  using assms
  by (simp add: handleSubmit_resume_def catchUploadError_def Let_def split: prod.split)

lemma failureMessage_json:
  assumes "isJson response" and "jsonBody response = Resolved payload"
  shows "failureMessage response = (classifyPayload (genericMessage response) payload, [])"
  using assms by (simp add: failureMessage_def Let_def)

lemma classifyPayload_string:
  "trim p \<noteq> [] \<Longrightarrow> classifyPayload msg (JStr p) = trim p"
  by (simp add: classifyPayload_def)

lemma classifyPayload_detail_string:
  "detailOf payload = Some (JStr d) \<Longrightarrow> d \<noteq> [] \<Longrightarrow> classifyPayload msg payload = d"
  by (cases payload) (simp_all add: classifyPayload_def)

lemma classifyPayload_detail_other:
  assumes "detailOf payload = Some detail" and "\<forall>d. detail \<noteq> JStr d" and "truthy detail"
  shows "classifyPayload msg payload = JSON_stringify detail"
  using assms by (cases payload; cases detail) (simp_all add: classifyPayload_def)

lemma classifyPayload_generic:
  assumes "\<forall>p. payload = JStr p \<longrightarrow> trim p = []"
    and "\<forall>detail. detailOf payload = Some detail \<longrightarrow> \<not> truthy detail"
  shows "classifyPayload msg payload = msg"
  using assms by (cases payload) (auto simp add: classifyPayload_def split: option.splits)

lemma digits_422: "digits 422 = ''422''"
  by (simp add: digits.simps)

lemma digits_500: "digits 500 = ''500''"
  by (simp add: digits.simps)

lemma jsonErrorResponse_facts:
  "300 \<le> code \<Longrightarrow> \<not> ok (jsonErrorResponse code payload)"
  "isJson (jsonErrorResponse code payload)"
  "jsonBody (jsonErrorResponse code payload) = Resolved payload"
  "status (jsonErrorResponse code payload) = code"
  by (simp_all add: jsonErrorResponse_def ok_def isJson_def)

lemma failureMessage_text:
  assumes "\<not> isJson response" and "textBody response = Resolved body"
  shows "failureMessage response
           = (if trim body \<noteq> [] then trim body else genericMessage response, [])"
  using assms by (simp add: failureMessage_def Let_def)

lemma failureMessage_parse_failure:
  assumes "(isJson response \<and> jsonBody response = Rejected e)
           \<or> (\<not> isJson response \<and> textBody response = Rejected e)"
  shows "failureMessage response = (genericMessage response, [ConsoleWarn])"
  using assms by (auto simp add: failureMessage_def Let_def)

lemma includesStr_suffix: "includesStr ys t \<Longrightarrow> includesStr (xs @ ys) t"
  by (induction xs) (auto intro: includesStr.elims)

lemma prefix_within:
  assumes "prefix t (w @ z)" and "length t \<le> length w"
  shows "prefix t w"
  using prefix_length_prefix [of t "w @ z" w] assms by simp

lemma includesStr_prefix: "prefix t s \<Longrightarrow> includesStr s t"
  by (cases s) auto

lemma no_early_prefix:
  assumes "sep \<noteq> []" and "\<not> includesStr ((c # pre) @ butlast sep) sep"
  shows "\<not> prefix sep ((c # pre) @ sep @ rest)"
proof
  assume p: "prefix sep ((c # pre) @ sep @ rest)"
  have "((c # pre) @ butlast sep) @ ([last sep] @ rest) = (c # pre) @ sep @ rest"
    by (metis append_assoc append_butlast_last_id assms(1))
  with p have "prefix sep (((c # pre) @ butlast sep) @ ([last sep] @ rest))" by metis
  moreover have "length sep \<le> length ((c # pre) @ butlast sep)"
    using assms(1) by simp
  ultimately have "prefix sep ((c # pre) @ butlast sep)"
    by (rule prefix_within)
  then have "includesStr ((c # pre) @ butlast sep) sep"
    by (rule includesStr_prefix)
  with assms(2) show False by simp
qed

lemma splitFrom_first:
  assumes "sep \<noteq> []" and "\<not> includesStr (pre @ butlast sep) sep"
  shows "splitFrom sep acc (pre @ sep @ rest) = (acc @ pre) # splitFrom sep [] rest"
  using assms(2)
proof (induction pre arbitrary: acc)
  case Nil
  obtain c cs where sep: "sep = c # cs" using assms(1) by (cases sep) auto
  have "splitFrom sep acc (sep @ rest) = acc # splitFrom sep [] (drop (length sep) (sep @ rest))"
    unfolding sep by simp
  then show ?case by simp
next
  case (Cons c pre)
  have np: "\<not> prefix sep ((c # pre) @ sep @ rest)"
    using assms(1) Cons.prems by (rule no_early_prefix)
  have "\<not> includesStr (pre @ butlast sep) sep"
    using Cons.prems by simp
  then have "splitFrom sep (acc @ [c]) (pre @ sep @ rest) = ((acc @ [c]) @ pre) # splitFrom sep [] rest"
    by (rule Cons.IH)
  with np show ?case by simp
qed

lemma splitFrom_none:
  assumes "\<not> includesStr s sep"
  shows "splitFrom sep acc s = [acc @ s]"
  using assms
proof (induction s arbitrary: acc)
  case Nil
  then show ?case by simp
next
  case (Cons c s)
  then show ?case by simp
qed

lemma split_first_occurrence:
  assumes "sep \<noteq> []" and "\<not> includesStr (pre @ butlast sep) sep" and "\<not> includesStr rest sep"
  shows "split (pre @ sep @ rest) sep = [pre, rest]"
  using splitFrom_first [OF assms(1,2), of "[]" rest] splitFrom_none [OF assms(3), of "[]"]
  by (simp add: split_def)

lemma split_no_occurrence:
  assumes "\<not> includesStr s sep"
  shows "split s sep = [s]"
  using splitFrom_none [OF assms, of "[]"] by (simp add: split_def)

lemma suggestedFilename_fragment:
  assumes "contentDisposition response = Some (pre @ ''filename='' @ rest)"
    and "\<not> includesStr (pre @ ''filename'') ''filename=''"
    and "\<not> includesStr rest ''filename=''"
  shows "suggestedFilename response = Some (removeQuotes rest)"
proof -
  have "split (pre @ ''filename='' @ rest) ''filename='' = [pre, rest]"
    using assms(2,3) by (intro split_first_occurrence) simp_all
  with assms(1) show ?thesis
    by (simp add: suggestedFilename_def)
qed

lemma suggestedFilename_absent:
  assumes "contentDisposition response = None
           \<or> (\<exists>h. contentDisposition response = Some h \<and> \<not> includesStr h ''filename='')"
  shows "suggestedFilename response = None"
  using assms by (auto simp add: suggestedFilename_def split_no_occurrence)

lemma removeQuotes_surrounding:
  "CHR 0x22 \<notin> set v \<Longrightarrow> removeQuotes ([CHR 0x22] @ v @ [CHR 0x22]) = v"
  by (auto simp add: removeQuotes_def filter_id_conv)

lemma handleSubmit_with_file:
  assumes "selectedFile s = Some file"
  shows "handleSubmit now server s
           = (fst (handleSubmit_resume now (server file)
                     (s\<lparr>error := None, successMessage := None, state := Uploading\<rparr>)),
              Fetch endpoint ''file'' file
                # snd (handleSubmit_resume now (server file)
                         (s\<lparr>error := None, successMessage := None, state := Uploading\<rparr>)))"
  using assms
  by (simp add: handleSubmit_def handleSubmit_begin_def Let_def split: prod.split)

lemma submit_failure:
  assumes "selectedFile s = Some file" and "server file = Resolved response"
    and "\<not> ok response"
  shows "handleSubmit now server s
           = (s\<lparr>error := Some \<lparr>message = fst (failureMessage response), details = None\<rparr>,
                successMessage := None, state := Error\<rparr>,
              Fetch endpoint ''file'' file # snd (failureMessage response) @ [ConsoleError])"
  using assms(2) resume_failure [OF assms(3)]
  by (simp add: handleSubmit_with_file [OF assms(1)])

lemma submit_success:
  assumes "selectedFile s = Some file" and "server file = Resolved response"
    and "ok response" and "blobBody response = Resolved blob"
  shows "handleSubmit now server s
           = (s\<lparr>error := None,
                successMessage := Some ''Excel workbook downloaded successfully.'',
                state := Success\<rparr>,
              [Fetch endpoint ''file'' file, Download (downloadName now response) blob])"
  using assms(2,3,4)
  by (simp add: handleSubmit_with_file [OF assms(1)] handleSubmit_resume_def)

lemma chosenApp_file: "selectedFile chosenApp = Some \<lparr>name = ''report.xml'', fsize = 1\<rparr>"
  by (simp add: chosenApp_def)

text \<open>
  C2. For a non-success response declared as JSON, the claim has the message be the
  trimmed text of a string payload, else the string \<open>detail\<close>, else the
  serialization of a \<open>detail\<close> that is not a string, else the generic message. The
  handler tests the trimmed string and \<open>detail\<close> for truth: with \<open>detail\<close> equal
  to \<open>false\<close> (whose serialization is "false"), with \<open>detail\<close> the empty string, and
  with a payload of two spaces, the message is the generic one.
\<close>

theorem falsy_detail_gets_generic_message:
  "fst (handleSubmit 0 (respondWith (jsonErrorResponse 422 (JObj [(''detail'', JBool False)])))
          chosenApp)
     = chosenApp\<lparr>error := Some \<lparr>message = ''Failed to convert XBRL file (status 422)'',
                                   details = None\<rparr>, state := Error\<rparr>
   \<and> JSON_stringify (JBool False) = ''false''
   \<and> fst (handleSubmit 0 (respondWith (jsonErrorResponse 422 (JObj [(''detail'', JStr '''')])))
          chosenApp)
     = chosenApp\<lparr>error := Some \<lparr>message = ''Failed to convert XBRL file (status 422)'',
                                   details = None\<rparr>, state := Error\<rparr>
   \<and> fst (handleSubmit 0 (respondWith (jsonErrorResponse 422 (JStr ''  ''))) chosenApp)
     = chosenApp\<lparr>error := Some \<lparr>message = ''Failed to convert XBRL file (status 422)'',
                                   details = None\<rparr>, state := Error\<rparr>
   \<and> trim ''  '' = []"
proof -
  have g: "fst (handleSubmit 0 (respondWith (jsonErrorResponse 422 payload)) chosenApp)
             = chosenApp\<lparr>error := Some \<lparr>message = classifyPayload
                                (''Failed to convert XBRL file (status 422)'') payload,
                              details = None\<rparr>, state := Error\<rparr>" for payload
    by (simp add: submit_failure [OF chosenApp_file] respondWith_def jsonErrorResponse_facts
        failureMessage_json genericMessage_def digits_422) (simp add: chosenApp_def)
  have t: "trim ''  '' = []"
    by (simp add: trim_def isWhiteSpace_def)
  show ?thesis
    by (simp add: g t classifyPayload_def)
qed

text \<open>
  C2, amended. For a non-success response declared as JSON whose body parses, the
  message is: the trimmed text of a string payload if that is not empty; else
  \<open>detail\<close> if it is a non-empty string (status 422 with \<open>{"detail": "bad taxonomy"}\<close>
  gives "bad taxonomy"); else the serialization of \<open>detail\<close> if it is not a string
  and is truthy (not \<open>null\<close>, \<open>false\<close> or \<open>0\<close>); else
  "Failed to convert XBRL file (status <code>)". The state becomes \<open>Error\<close>.
\<close>

theorem json_error_classified:
  assumes "selectedFile s = Some file" and "server file = Resolved response"
    and "\<not> ok response" and "isJson response" and "jsonBody response = Resolved payload"
  shows "\<exists>m. handleSubmit now server s
               = (s\<lparr>error := Some \<lparr>message = m, details = None\<rparr>, successMessage := None,
                     state := Error\<rparr>,
                  [Fetch endpoint ''file'' file, ConsoleError])
           \<and> (\<forall>p. payload = JStr p \<and> trim p \<noteq> [] \<longrightarrow> m = trim p)
           \<and> (\<forall>d. detailOf payload = Some (JStr d) \<and> d \<noteq> [] \<longrightarrow> m = d)
           \<and> (\<forall>detail. detailOf payload = Some detail \<and> (\<forall>d. detail \<noteq> JStr d)
                  \<and> truthy detail \<longrightarrow> m = JSON_stringify detail)
           \<and> ((\<forall>p. payload = JStr p \<longrightarrow> trim p = [])
                \<and> (\<forall>detail. detailOf payload = Some detail \<longrightarrow> \<not> truthy detail)
                \<longrightarrow> m = ''Failed to convert XBRL file (status '' @ digits (status response)
                          @ '')'')"
proof (intro exI conjI allI impI)
  show "handleSubmit now server s
          = (s\<lparr>error := Some \<lparr>message = classifyPayload (genericMessage response) payload,
                                details = None\<rparr>, successMessage := None, state := Error\<rparr>,
             [Fetch endpoint ''file'' file, ConsoleError])"
    using submit_failure [where server = server, OF assms(1,2,3)] failureMessage_json [OF assms(4,5)]
    by simp
next
  fix p assume "payload = JStr p \<and> trim p \<noteq> []"
  then show "classifyPayload (genericMessage response) payload = trim p"
    by (simp add: classifyPayload_string)
next
  fix d assume "detailOf payload = Some (JStr d) \<and> d \<noteq> []"
  then show "classifyPayload (genericMessage response) payload = d"
    by (simp add: classifyPayload_detail_string)
next
  fix detail
  assume "detailOf payload = Some detail \<and> (\<forall>d. detail \<noteq> JStr d) \<and> truthy detail"
  then show "classifyPayload (genericMessage response) payload = JSON_stringify detail"
    by (simp add: classifyPayload_detail_other)
next
  assume "(\<forall>p. payload = JStr p \<longrightarrow> trim p = [])
          \<and> (\<forall>detail. detailOf payload = Some detail \<longrightarrow> \<not> truthy detail)"
  then have "classifyPayload (genericMessage response) payload = genericMessage response"
    by (simp add: classifyPayload_generic)
  then show "classifyPayload (genericMessage response) payload
               = ''Failed to convert XBRL file (status '' @ digits (status response) @ '')''"
    by (simp add: genericMessage_def)
qed

lemma JSON_stringify_example:
  "JSON_stringify (JArr [JObj [(''loc'', JNum 3), (''msg'', JStr ''x'')]])
     = ''[{'' @ [CHR 0x22] @ ''loc'' @ [CHR 0x22] @ '':3,'' @ [CHR 0x22] @ ''msg'' @ [CHR 0x22]
       @ '':'' @ [CHR 0x22] @ ''x'' @ [CHR 0x22] @ ''}]''"
  by (simp add: quoteJSONString_def escapeChar_def showInt_def digits.simps)

lemma trim_example: "trim '' bad gateway  '' = ''bad gateway''"
  by (simp add: trim_def isWhiteSpace_def)

theorem json_error_classified_witness:
  "selectedFile chosenApp = Some \<lparr>name = ''report.xml'', fsize = 1\<rparr>
   \<and> \<not> ok (jsonErrorResponse 422 (JObj [(''detail'', JStr ''bad taxonomy'')]))
   \<and> isJson (jsonErrorResponse 422 (JObj [(''detail'', JStr ''bad taxonomy'')]))
   \<and> jsonBody (jsonErrorResponse 422 (JObj [(''detail'', JStr ''bad taxonomy'')]))
       = Resolved (JObj [(''detail'', JStr ''bad taxonomy'')])
   \<and> handleSubmit 0
        (respondWith (jsonErrorResponse 422 (JObj [(''detail'', JStr ''bad taxonomy'')])))
        chosenApp
       = (chosenApp\<lparr>error := Some \<lparr>message = ''bad taxonomy'', details = None\<rparr>,
                      state := Error\<rparr>,
          [Fetch endpoint ''file'' \<lparr>name = ''report.xml'', fsize = 1\<rparr>, ConsoleError])
   \<and> handleSubmit 0 (respondWith (jsonErrorResponse 422 (JStr '' bad gateway  ''))) chosenApp
       = (chosenApp\<lparr>error := Some \<lparr>message = ''bad gateway'', details = None\<rparr>,
                      state := Error\<rparr>,
          [Fetch endpoint ''file'' \<lparr>name = ''report.xml'', fsize = 1\<rparr>, ConsoleError])
   \<and> handleSubmit 0
        (respondWith (jsonErrorResponse 422
           (JObj [(''detail'', JArr [JObj [(''loc'', JNum 3), (''msg'', JStr ''x'')]])])))
        chosenApp
       = (chosenApp\<lparr>error := Some \<lparr>message =
              ''[{'' @ [CHR 0x22] @ ''loc'' @ [CHR 0x22] @ '':3,'' @ [CHR 0x22] @ ''msg''
                @ [CHR 0x22] @ '':'' @ [CHR 0x22] @ ''x'' @ [CHR 0x22] @ ''}]'',
              details = None\<rparr>,
                      state := Error\<rparr>,
          [Fetch endpoint ''file'' \<lparr>name = ''report.xml'', fsize = 1\<rparr>, ConsoleError])
   \<and> handleSubmit 0 (respondWith (jsonErrorResponse 422 (JObj []))) chosenApp
       = (chosenApp\<lparr>error := Some \<lparr>message = ''Failed to convert XBRL file (status 422)'',
                                     details = None\<rparr>,
                      state := Error\<rparr>,
          [Fetch endpoint ''file'' \<lparr>name = ''report.xml'', fsize = 1\<rparr>, ConsoleError])"
proof -
  define fl where "fl = \<lparr>name = ''report.xml'', fsize = 1\<rparr>"
  define result where
    "result m = (chosenApp\<lparr>error := Some \<lparr>message = m, details = None\<rparr>, state := Error\<rparr>,
                 [Fetch endpoint ''file'' fl, ConsoleError])" for m
  define run where "run payload = handleSubmit 0 (respondWith (jsonErrorResponse 422 payload)) chosenApp"
    for payload
  have f: "selectedFile chosenApp = Some fl" by (simp add: chosenApp_def fl_def)
  have a: "\<not> ok (jsonErrorResponse 422 payload)" for payload
    by (simp add: jsonErrorResponse_facts)
  have b: "isJson (jsonErrorResponse 422 payload)" for payload
    by (simp add: jsonErrorResponse_facts)
  have c: "jsonBody (jsonErrorResponse 422 payload) = Resolved payload" for payload
    by (simp add: jsonErrorResponse_facts)
  have s: "respondWith (jsonErrorResponse 422 payload) fl = Resolved (jsonErrorResponse 422 payload)"
    for payload
    by (simp add: respondWith_def)
  have cases: "\<exists>m. run payload = result m
           \<and> (\<forall>p. payload = JStr p \<and> trim p \<noteq> [] \<longrightarrow> m = trim p)
           \<and> (\<forall>d. detailOf payload = Some (JStr d) \<and> d \<noteq> [] \<longrightarrow> m = d)
           \<and> (\<forall>detail. detailOf payload = Some detail \<and> (\<forall>d. detail \<noteq> JStr d)
                  \<and> truthy detail \<longrightarrow> m = JSON_stringify detail)
           \<and> ((\<forall>p. payload = JStr p \<longrightarrow> trim p = [])
                \<and> (\<forall>detail. detailOf payload = Some detail \<longrightarrow> \<not> truthy detail)
                \<longrightarrow> m = ''Failed to convert XBRL file (status 422)'')" for payload
    using json_error_classified
            [where server = "respondWith (jsonErrorResponse 422 payload)", OF f s a b c, of 0]
    by (simp add: run_def result_def jsonErrorResponse_facts digits_422 chosenApp_def)
  have 1: "run (JObj [(''detail'', JStr ''bad taxonomy'')]) = result ''bad taxonomy''"
    using cases [of "JObj [(''detail'', JStr ''bad taxonomy'')]"] by auto
  have 2: "run (JStr '' bad gateway  '') = result ''bad gateway''"
    using cases [of "JStr '' bad gateway  ''"] trim_example by auto
  have 3: "run (JObj [(''detail'', JArr [JObj [(''loc'', JNum 3), (''msg'', JStr ''x'')]])])
             = result (JSON_stringify (JArr [JObj [(''loc'', JNum 3), (''msg'', JStr ''x'')]]))"
    using cases [of "JObj [(''detail'', JArr [JObj [(''loc'', JNum 3), (''msg'', JStr ''x'')]])]"]
    by auto
  have 4: "run (JObj []) = result ''Failed to convert XBRL file (status 422)''"
    using cases [of "JObj []"] by auto
  from f a b c 1 2 3 [unfolded JSON_stringify_example] 4 show ?thesis
    unfolding run_def result_def fl_def by simp
qed

text \<open>What \<open>trim\<close> returns: the string without its leading and trailing white
  space, which is empty exactly for a string of white space only.\<close>

lemma trim_decompose:
  "\<exists>pre post. s = pre @ trim s @ post \<and> list_all isWhiteSpace pre \<and> list_all isWhiteSpace post"
proof -
  define b where "b = dropWhile isWhiteSpace s"
  have s: "s = takeWhile isWhiteSpace s @ b"
    by (simp add: b_def)
  have "rev (dropWhile isWhiteSpace (rev b)) @ rev (takeWhile isWhiteSpace (rev b))
          = rev (takeWhile isWhiteSpace (rev b) @ dropWhile isWhiteSpace (rev b))"
    by (simp only: rev_append)
  also have "\<dots> = rev (rev b)"
    by (simp only: takeWhile_dropWhile_id)
  also have "\<dots> = b" by simp
  finally have b: "b = trim s @ rev (takeWhile isWhiteSpace (rev b))"
    by (simp only: trim_def b_def)
  have 1: "list_all isWhiteSpace (takeWhile isWhiteSpace s)"
    by (simp add: list_all_iff) (meson set_takeWhileD)
  have 2: "list_all isWhiteSpace (rev (takeWhile isWhiteSpace (rev b)))"
    by (simp add: list_all_iff) (meson set_takeWhileD)
  from s b have "s = takeWhile isWhiteSpace s @ trim s @ rev (takeWhile isWhiteSpace (rev b))"
    by metis
  with 1 2 show ?thesis by blast
qed

lemma trim_ends:
  assumes "trim s \<noteq> []"
  shows "\<not> isWhiteSpace (hd (trim s)) \<and> \<not> isWhiteSpace (last (trim s))"
proof -
  define b where "b = dropWhile isWhiteSpace s"
  define c where "c = dropWhile isWhiteSpace (rev b)"
  have t: "trim s = rev c" by (simp add: trim_def b_def c_def)
  with assms have c: "c \<noteq> []" by simp
  then have "\<not> isWhiteSpace (hd c)"
    unfolding c_def by (rule hd_dropWhile)
  then have l: "\<not> isWhiteSpace (last (trim s))"
    using c by (simp add: t last_rev)
  from c have "b \<noteq> []" by (auto simp: c_def)
  then have hb: "\<not> isWhiteSpace (hd b)"
    unfolding b_def by (rule hd_dropWhile)
  have "rev b = takeWhile isWhiteSpace (rev b) @ c"
    by (simp add: c_def)
  then have "rev (rev b) = rev (takeWhile isWhiteSpace (rev b) @ c)"
    by (rule arg_cong)
  then have "b = rev c @ rev (takeWhile isWhiteSpace (rev b))" by simp
  with c have "hd b = hd (rev c)" by (metis hd_append2 rev_is_Nil_conv)
  with hb t have "\<not> isWhiteSpace (hd (trim s))" by simp
  with l show ?thesis by simp
qed

lemma trim_empty_iff: "trim s = [] \<longleftrightarrow> list_all isWhiteSpace s"
proof
  assume "list_all isWhiteSpace s"
  then have "dropWhile isWhiteSpace s = []"
    by (induction s) simp_all
  then show "trim s = []" by (simp only: trim_def dropWhile.simps rev.simps)
next
  assume e: "trim s = []"
  from trim_decompose [of s] obtain pre post
    where d: "s = pre @ trim s @ post" and w: "list_all isWhiteSpace pre" "list_all isWhiteSpace post"
    by blast
  from d e have "s = pre @ post" by simp
  then have "list_all isWhiteSpace s = list_all isWhiteSpace (pre @ post)" by (rule arg_cong)
  with w show "list_all isWhiteSpace s" by simp
qed

text \<open>
  C3. For a non-success response not declared as JSON, the message is the body text
  without its leading and trailing white space if anything is left of it, and the
  generic message for a body of white space only. When reading the body fails
  (\<open>response.json()\<close> or \<open>response.text()\<close> rejects), the failure is logged with
  \<open>console.warn\<close> and not surfaced: the message is the generic one. In every case
  the state becomes \<open>Error\<close>.
\<close>

theorem text_error_and_parse_failure:
  assumes "selectedFile s = Some file" and "server file = Resolved response"
    and "\<not> ok response"
  shows "state (fst (handleSubmit now server s)) = Error
         \<and> (\<forall>body. \<not> isJson response \<and> textBody response = Resolved body \<longrightarrow>
               handleSubmit now server s
                 = (s\<lparr>error := Some \<lparr>message =
                          (if trim body \<noteq> [] then trim body
                           else ''Failed to convert XBRL file (status ''
                                  @ digits (status response) @ '')''),
                        details = None\<rparr>, successMessage := None, state := Error\<rparr>,
                    [Fetch endpoint ''file'' file, ConsoleError]))
         \<and> (\<forall>body. \<not> isJson response \<and> textBody response = Resolved body \<longrightarrow>
               (\<exists>m. error (fst (handleSubmit now server s))
                       = Some \<lparr>message = m, details = None\<rparr>
                  \<and> ((list_all isWhiteSpace body
                        \<and> m = ''Failed to convert XBRL file (status ''
                                @ digits (status response) @ '')'')
                      \<or> (\<exists>pre post. body = pre @ m @ post
                            \<and> list_all isWhiteSpace pre \<and> list_all isWhiteSpace post
                            \<and> m \<noteq> [] \<and> \<not> isWhiteSpace (hd m) \<and> \<not> isWhiteSpace (last m)))))
         \<and> (\<forall>c. isWhiteSpace c
                \<longleftrightarrow> c \<in> set [CHR 0x09, CHR 0x0A, CHR 0x0B, CHR 0x0C, CHR 0x0D, CHR 0x20, CHR 0xA0])
         \<and> (\<forall>e. (isJson response \<and> jsonBody response = Rejected e)
                  \<or> (\<not> isJson response \<and> textBody response = Rejected e) \<longrightarrow>
               handleSubmit now server s
                 = (s\<lparr>error := Some \<lparr>message = ''Failed to convert XBRL file (status ''
                                                    @ digits (status response) @ '')'',
                        details = None\<rparr>, successMessage := None, state := Error\<rparr>,
                    [Fetch endpoint ''file'' file, ConsoleWarn, ConsoleError]))"
proof (intro conjI allI impI)
  show "state (fst (handleSubmit now server s)) = Error"
    by (simp add: submit_failure [where server = server, OF assms])
next
  fix body assume "\<not> isJson response \<and> textBody response = Resolved body"
  then have "failureMessage response
               = (if trim body \<noteq> [] then trim body else genericMessage response, [])"
    by (simp add: failureMessage_text)
  then show "handleSubmit now server s
                 = (s\<lparr>error := Some \<lparr>message =
                          (if trim body \<noteq> [] then trim body
                           else ''Failed to convert XBRL file (status ''
                                  @ digits (status response) @ '')''),
                        details = None\<rparr>, successMessage := None, state := Error\<rparr>,
                    [Fetch endpoint ''file'' file, ConsoleError])"
    by (simp add: submit_failure [where server = server, OF assms] genericMessage_def)
next
  fix body assume "\<not> isJson response \<and> textBody response = Resolved body"
  then have fm: "failureMessage response
               = (if trim body \<noteq> [] then trim body else genericMessage response, [])"
    by (simp add: failureMessage_text)
  show "\<exists>m. error (fst (handleSubmit now server s)) = Some \<lparr>message = m, details = None\<rparr>
           \<and> ((list_all isWhiteSpace body
                 \<and> m = ''Failed to convert XBRL file (status '' @ digits (status response) @ '')'')
               \<or> (\<exists>pre post. body = pre @ m @ post
                     \<and> list_all isWhiteSpace pre \<and> list_all isWhiteSpace post
                     \<and> m \<noteq> [] \<and> \<not> isWhiteSpace (hd m) \<and> \<not> isWhiteSpace (last m)))"
  proof (cases "trim body = []")
    case True
    then have "list_all isWhiteSpace body" by (simp add: trim_empty_iff)
    moreover from True fm
    have "error (fst (handleSubmit now server s))
            = Some \<lparr>message = ''Failed to convert XBRL file (status ''
                                @ digits (status response) @ '')'', details = None\<rparr>"
      by (simp add: submit_failure [where server = server, OF assms] genericMessage_def)
    ultimately show ?thesis by blast
  next
    case False
    with fm have "error (fst (handleSubmit now server s))
            = Some \<lparr>message = trim body, details = None\<rparr>"
      by (simp add: submit_failure [where server = server, OF assms])
    moreover from trim_decompose [of body] trim_ends [OF False] False
    have "\<exists>pre post. body = pre @ trim body @ post
            \<and> list_all isWhiteSpace pre \<and> list_all isWhiteSpace post
            \<and> trim body \<noteq> [] \<and> \<not> isWhiteSpace (hd (trim body))
            \<and> \<not> isWhiteSpace (last (trim body))"
      by blast
    ultimately show ?thesis by blast
  qed
next
  fix c
  show "isWhiteSpace c
          \<longleftrightarrow> c \<in> set [CHR 0x09, CHR 0x0A, CHR 0x0B, CHR 0x0C, CHR 0x0D, CHR 0x20, CHR 0xA0]"
    by (simp add: isWhiteSpace_def)
next
  fix e assume "(isJson response \<and> jsonBody response = Rejected e)
                  \<or> (\<not> isJson response \<and> textBody response = Rejected e)"
  then have "failureMessage response = (genericMessage response, [ConsoleWarn])"
    by (rule failureMessage_parse_failure)
  then show "handleSubmit now server s
                 = (s\<lparr>error := Some \<lparr>message = ''Failed to convert XBRL file (status ''
                                                    @ digits (status response) @ '')'',
                        details = None\<rparr>, successMessage := None, state := Error\<rparr>,
                    [Fetch endpoint ''file'' file, ConsoleWarn, ConsoleError])"
    by (simp add: submit_failure [where server = server, OF assms] genericMessage_def)
qed

lemma trim_internal_error: "trim ''internal error'' = ''internal error''"
  by (simp add: trim_def isWhiteSpace_def)

lemma trim_padded_internal_error:
  "trim ([CHR 0x09, CHR 0x20] @ ''internal error'' @ [CHR 0x20, CHR 0x0D, CHR 0x0A]) = ''internal error''"
  by (simp add: trim_def isWhiteSpace_def)

lemma trim_blank: "trim ([CHR 0x20, CHR 0x09, CHR 0x0D, CHR 0x0A]) = []"
  by (simp add: trim_def isWhiteSpace_def)

theorem text_error_and_parse_failure_witness:
  "selectedFile chosenApp = Some \<lparr>name = ''report.xml'', fsize = 1\<rparr>
   \<and> \<not> ok (textErrorResponse 500 ''internal error'')
   \<and> handleSubmit 0 (respondWith (textErrorResponse 500 ''internal error'')) chosenApp
       = (chosenApp\<lparr>error := Some \<lparr>message = ''internal error'', details = None\<rparr>,
                      state := Error\<rparr>,
          [Fetch endpoint ''file'' \<lparr>name = ''report.xml'', fsize = 1\<rparr>, ConsoleError])
   \<and> handleSubmit 0
        (respondWith (textErrorResponse 500
           ([CHR 0x09, CHR 0x20] @ ''internal error'' @ [CHR 0x20, CHR 0x0D, CHR 0x0A])))
        chosenApp
       = (chosenApp\<lparr>error := Some \<lparr>message = ''internal error'', details = None\<rparr>,
                      state := Error\<rparr>,
          [Fetch endpoint ''file'' \<lparr>name = ''report.xml'', fsize = 1\<rparr>, ConsoleError])
   \<and> handleSubmit 0
        (respondWith (textErrorResponse 500 [CHR 0x20, CHR 0x09, CHR 0x0D, CHR 0x0A])) chosenApp
       = (chosenApp\<lparr>error := Some \<lparr>message = ''Failed to convert XBRL file (status 500)'',
                                     details = None\<rparr>,
                      state := Error\<rparr>,
          [Fetch endpoint ''file'' \<lparr>name = ''report.xml'', fsize = 1\<rparr>, ConsoleError])
   \<and> handleSubmit 0
        (respondWith ((jsonErrorResponse 500 JNull)
                        \<lparr>jsonBody := Rejected (JsError ''Unexpected token'')\<rparr>))
        chosenApp
       = (chosenApp\<lparr>error := Some \<lparr>message = ''Failed to convert XBRL file (status 500)'',
                                     details = None\<rparr>,
                      state := Error\<rparr>,
          [Fetch endpoint ''file'' \<lparr>name = ''report.xml'', fsize = 1\<rparr>, ConsoleWarn,
           ConsoleError])"
proof -
  define fl where "fl = \<lparr>name = ''report.xml'', fsize = 1\<rparr>"
  define result where
    "result m log = (chosenApp\<lparr>error := Some \<lparr>message = m, details = None\<rparr>, state := Error\<rparr>,
                     Fetch endpoint ''file'' fl # log @ [ConsoleError])" for m log
  define q where "q = (jsonErrorResponse 500 JNull)\<lparr>jsonBody := Rejected (JsError ''Unexpected token'')\<rparr>"
  define e where "e = JsError ''Unexpected token''"
  have f: "selectedFile chosenApp = Some fl" by (simp add: chosenApp_def fl_def)
  have s: "respondWith r fl = Resolved r" for r by (simp add: respondWith_def)
  have a: "\<not> ok (textErrorResponse 500 body)" for body
    by (simp add: textErrorResponse_def ok_def)
  have b: "\<not> isJson (textErrorResponse 500 body)
           \<and> textBody (textErrorResponse 500 body) = Resolved body" for body
    by (simp add: textErrorResponse_def isJson_def)
  have st: "status (textErrorResponse 500 body) = 500" for body
    by (simp add: textErrorResponse_def)
  have c: "\<not> ok q" by (simp add: q_def jsonErrorResponse_def ok_def)
  have d: "(isJson q \<and> jsonBody q = Rejected e) \<or> (\<not> isJson q \<and> textBody q = Rejected e)"
    by (simp add: q_def e_def jsonErrorResponse_def isJson_def)
  have sq: "status q = 500"
    by (simp add: q_def jsonErrorResponse_def)
  have plain: "handleSubmit 0 (respondWith (textErrorResponse 500 body)) chosenApp
               = result (if trim body \<noteq> [] then trim body
                         else ''Failed to convert XBRL file (status 500)'') []" for body
    using text_error_and_parse_failure
            [where server = "respondWith (textErrorResponse 500 body)", OF f s a, of 0,
             THEN conjunct2, THEN conjunct1, THEN spec, THEN mp, OF b]
    by (simp add: st digits_500 result_def chosenApp_def)
  have 1: "handleSubmit 0 (respondWith (textErrorResponse 500 ''internal error'')) chosenApp
             = result ''internal error'' []"
    using plain [of "''internal error''"] by (simp add: trim_internal_error)
  have 2: "handleSubmit 0
             (respondWith (textErrorResponse 500
                ([CHR 0x09, CHR 0x20] @ ''internal error'' @ [CHR 0x20, CHR 0x0D, CHR 0x0A])))
             chosenApp
             = result ''internal error'' []"
    using plain [of "[CHR 0x09, CHR 0x20] @ ''internal error'' @ [CHR 0x20, CHR 0x0D, CHR 0x0A]"]
    by (simp only: trim_padded_internal_error) simp
  have 3: "handleSubmit 0
             (respondWith (textErrorResponse 500 [CHR 0x20, CHR 0x09, CHR 0x0D, CHR 0x0A]))
             chosenApp
             = result ''Failed to convert XBRL file (status 500)'' []"
    using plain [of "[CHR 0x20, CHR 0x09, CHR 0x0D, CHR 0x0A]"]
    by (simp only: trim_blank) simp
  from text_error_and_parse_failure
         [where server = "respondWith q", OF f s c, of 0, THEN conjunct2, THEN conjunct2,
          THEN conjunct2, THEN conjunct2, THEN spec, THEN mp, OF d]
  have 4: "handleSubmit 0 (respondWith q) chosenApp
             = result ''Failed to convert XBRL file (status 500)'' [ConsoleWarn]"
    by (simp add: sq digits_500 result_def chosenApp_def)
  from f a 1 2 3 4 show ?thesis
    unfolding result_def q_def fl_def by simp
qed

lemma includesStr_length: "includesStr s t \<Longrightarrow> length t \<le> length s"
  by (induction s) (auto dest: prefix_length_le)

lemma first_occurrence_exists:
  assumes "sep \<noteq> []" and "includesStr h sep"
  shows "\<exists>pre rest. h = pre @ sep @ rest \<and> \<not> includesStr (pre @ butlast sep) sep"
  using assms(2)
proof (induction h)
  case Nil
  with assms(1) show ?case by simp
next
  case (Cons c cs)
  show ?case
  proof (cases "prefix sep (c # cs)")
    case True
    then obtain rest where "c # cs = sep @ rest" by (auto simp: prefix_def)
    moreover have "\<not> includesStr (butlast sep) sep"
    proof
      assume "includesStr (butlast sep) sep"
      then have "length sep \<le> length (butlast sep)" by (rule includesStr_length)
      then have "length sep \<le> length sep - 1" by (simp only: length_butlast)
      moreover from assms(1) obtain c cs where "sep = c # cs" by (cases sep) auto
      ultimately show False by simp
    qed
    ultimately have "c # cs = [] @ sep @ rest \<and> \<not> includesStr ([] @ butlast sep) sep"
      by simp
    then show ?thesis by blast
  next
    case False
    with Cons.prems have "includesStr cs sep" by simp
    from Cons.IH [OF this] obtain pre rest
      where h: "cs = pre @ sep @ rest" and n: "\<not> includesStr (pre @ butlast sep) sep"
      by blast
    have "\<not> prefix sep ((c # pre) @ butlast sep)"
    proof
      assume p: "prefix sep ((c # pre) @ butlast sep)"
      have "prefix ((c # pre) @ butlast sep) ((c # pre) @ sep @ rest)"
        by (metis append_assoc append_butlast_last_id assms(1) prefix_def)
      with p have "prefix sep ((c # pre) @ sep @ rest)" by (rule prefix_order.trans)
      with False h show False by simp
    qed
    with n have "\<not> includesStr ((c # pre) @ butlast sep) sep" by simp
    with h have "c # cs = (c # pre) @ sep @ rest \<and> \<not> includesStr ((c # pre) @ butlast sep) sep"
      by simp
    then show ?thesis by blast
  qed
qed

lemma split_second_piece:
  assumes "sep \<noteq> []" and "\<not> includesStr (pre @ butlast sep) sep"
    and "(tail = [] \<and> \<not> includesStr piece sep)
         \<or> (prefix sep tail \<and> \<not> includesStr (piece @ butlast sep) sep)"
  shows "\<exists>more. split (pre @ sep @ piece @ tail) sep = pre # piece # more"
proof -
  have 1: "split (pre @ sep @ piece @ tail) sep = pre # splitFrom sep [] (piece @ tail)"
    using splitFrom_first [OF assms(1,2), of "[]" "piece @ tail"] by (simp add: split_def)
  from assms(3) show ?thesis
  proof
    assume "tail = [] \<and> \<not> includesStr piece sep"
    then have "splitFrom sep [] (piece @ tail) = [piece]"
      using splitFrom_none [of piece sep "[]"] by simp
    with 1 show ?thesis by simp
  next
    assume t: "prefix sep tail \<and> \<not> includesStr (piece @ butlast sep) sep"
    then obtain more where "tail = sep @ more" by (auto simp: prefix_def)
    then have "splitFrom sep [] (piece @ tail) = piece # splitFrom sep [] more"
      using splitFrom_first [OF assms(1), of piece "[]" more] t by simp
    with 1 show ?thesis by simp
  qed
qed

lemma suggestedFilename_piece:
  assumes "contentDisposition response = Some (pre @ ''filename='' @ piece @ tail)"
    and "\<not> includesStr (pre @ ''filename'') ''filename=''"
    and "(tail = [] \<and> \<not> includesStr piece ''filename='')
         \<or> (prefix ''filename='' tail \<and> \<not> includesStr (piece @ ''filename'') ''filename='')"
  shows "suggestedFilename response = Some (removeQuotes piece)"
proof -
  have "\<exists>more. split (pre @ ''filename='' @ piece @ tail) ''filename='' = pre # piece # more"
    using assms(2,3) by (intro split_second_piece) simp_all
  with assms(1) show ?thesis
    by (auto simp add: suggestedFilename_def)
qed

lemma header_decomposes:
  assumes "includesStr h ''filename=''"
  shows "\<exists>pre piece tail. h = pre @ ''filename='' @ piece @ tail
           \<and> \<not> includesStr (pre @ ''filename'') ''filename=''
           \<and> ((tail = [] \<and> \<not> includesStr piece ''filename='')
                \<or> (prefix ''filename='' tail
                    \<and> \<not> includesStr (piece @ ''filename'') ''filename=''))"
proof -
  from first_occurrence_exists [OF _ assms] obtain pre rest
    where h: "h = pre @ ''filename='' @ rest"
      and p: "\<not> includesStr (pre @ ''filename'') ''filename=''"
    by auto
  show ?thesis
  proof (cases "includesStr rest ''filename=''")
    case False
    with h p have "h = pre @ ''filename='' @ rest @ []
           \<and> \<not> includesStr (pre @ ''filename'') ''filename=''
           \<and> (([] :: string) = [] \<and> \<not> includesStr rest ''filename='')"
      by simp
    then show ?thesis by blast
  next
    case True
    from first_occurrence_exists [OF _ True] obtain piece more
      where r: "rest = piece @ ''filename='' @ more"
        and q: "\<not> includesStr (piece @ ''filename'') ''filename=''"
      by auto
    from h r p q have "h = pre @ ''filename='' @ piece @ (''filename='' @ more)
           \<and> \<not> includesStr (pre @ ''filename'') ''filename=''
           \<and> prefix ''filename='' (''filename='' @ more)
           \<and> \<not> includesStr (piece @ ''filename'') ''filename=''"
      by simp
    then show ?thesis by blast
  qed
qed

lemma submit_blob_unreadable:
  assumes "selectedFile s = Some file" and "server file = Resolved response"
    and "ok response" and "blobBody response = Rejected e"
  shows "handleSubmit now server s
           = (s\<lparr>error := Some \<lparr>message = (case e of JsError m \<Rightarrow> m
                                             | OtherThrown \<Rightarrow> ''Unexpected error occurred.''),
                                 details = None\<rparr>,
                successMessage := None, state := Error\<rparr>,
              [Fetch endpoint ''file'' file, ConsoleError])"
  using assms(2,3,4)
  by (simp add: handleSubmit_with_file [OF assms(1)] handleSubmit_resume_def
      catchUploadError_def Let_def)

text \<open>
  C6. The claim has every success response name the download by the \<open>filename=\<close>
  fragment of the header with its surrounding quotes stripped, and end in \<open>Success\<close>.
  The handler takes everything after \<open>filename=\<close>: for the header
  \<open>attachment; filename="out.xlsx"; size=3\<close> the download is named
  \<open>out.xlsx; size=3\<close>. And a success response whose body cannot be read ends in
  \<open>Error\<close> with no download.
\<close>

theorem trailing_parameter_stays_in_name:
  "handleSubmit 0
     (respondWith (successResponse
        (Some (''attachment; filename='' @ [CHR 0x22] @ ''out.xlsx'' @ [CHR 0x22] @ ''; size=3''))
        ''PK''))
     chosenApp
     = (chosenApp\<lparr>successMessage := Some ''Excel workbook downloaded successfully.'',
                    state := Success\<rparr>,
        [Fetch endpoint ''file'' \<lparr>name = ''report.xml'', fsize = 1\<rparr>,
         Download ''out.xlsx; size=3'' ''PK''])
   \<and> ok ((successResponse None ''PK'')\<lparr>blobBody := Rejected (JsError ''network error'')\<rparr>)
   \<and> handleSubmit 0
       (respondWith ((successResponse None ''PK'')
                       \<lparr>blobBody := Rejected (JsError ''network error'')\<rparr>))
       chosenApp
     = (chosenApp\<lparr>error := Some \<lparr>message = ''network error'', details = None\<rparr>,
                    state := Error\<rparr>,
        [Fetch endpoint ''file'' \<lparr>name = ''report.xml'', fsize = 1\<rparr>, ConsoleError])"
proof -
  have 1: "downloadName 0 (successResponse
        (Some (''attachment; filename='' @ [CHR 0x22] @ ''out.xlsx'' @ [CHR 0x22] @ ''; size=3''))
        ''PK'') = ''out.xlsx; size=3''"
    by (simp add: downloadName_def suggestedFilename_def successResponse_def split_def
        removeQuotes_def)
  have 2: "handleSubmit 0 (respondWith (successResponse h ''PK'')) chosenApp
             = (chosenApp\<lparr>successMessage := Some ''Excel workbook downloaded successfully.'',
                            state := Success\<rparr>,
                [Fetch endpoint ''file'' \<lparr>name = ''report.xml'', fsize = 1\<rparr>,
                 Download (downloadName 0 (successResponse h ''PK'')) ''PK''])" for h
    by (simp add: submit_success [OF chosenApp_file, where blob = "''PK''"] respondWith_def
        successResponse_def ok_def) (simp add: chosenApp_def)
  have 3: "handleSubmit 0
       (respondWith ((successResponse None ''PK'')
                       \<lparr>blobBody := Rejected (JsError ''network error'')\<rparr>))
       chosenApp
     = (chosenApp\<lparr>error := Some \<lparr>message = ''network error'', details = None\<rparr>,
                    state := Error\<rparr>,
        [Fetch endpoint ''file'' \<lparr>name = ''report.xml'', fsize = 1\<rparr>, ConsoleError])"
    by (simp add: submit_blob_unreadable [OF chosenApp_file, where e = "JsError ''network error''"]
        respondWith_def successResponse_def ok_def) (simp add: chosenApp_def)
  have 4: "ok ((successResponse None ''PK'')\<lparr>blobBody := Rejected (JsError ''network error'')\<rparr>)"
    by (simp add: successResponse_def ok_def)
  show ?thesis
    by (simp only: 2 1 3 4 simp_thms)
qed

text \<open>
  C6, amended. For a success response whose body can be read, the download is named by
  the text between the first \<open>filename=\<close> of the \<open>Content-Disposition\<close> header and
  the next \<open>filename=\<close> (or the end of the header), with every double quote removed:
  \<open>filename="out.xlsx"\<close> at the end of the header gives \<open>out.xlsx\<close>, and
  parameters after it stay in the name. When the header is missing, holds no
  \<open>filename=\<close>, or nothing is left of that text, the name is \<open>xbrl-export-\<close>, the
  current timestamp and \<open>.xlsx\<close>. The download is triggered, the state becomes
  \<open>Success\<close> and the success message is "Excel workbook downloaded successfully.".
  Every header falls under one of these cases. A success response whose body cannot be
  read triggers no download and ends in \<open>Error\<close> with the message of the failure.
\<close>

theorem success_download:
  assumes "selectedFile s = Some file" and "server file = Resolved response"
    and "ok response"
  shows "(\<forall>e. blobBody response = Rejected e \<longrightarrow>
            handleSubmit now server s
              = (s\<lparr>error := Some \<lparr>message = (case e of JsError m \<Rightarrow> m
                                                | OtherThrown \<Rightarrow> ''Unexpected error occurred.''),
                                    details = None\<rparr>,
                   successMessage := None, state := Error\<rparr>,
                 [Fetch endpoint ''file'' file, ConsoleError]))
         \<and> (\<forall>blob. blobBody response = Resolved blob \<longrightarrow>
              (\<exists>nm. handleSubmit now server s
                       = (s\<lparr>error := None,
                             successMessage := Some ''Excel workbook downloaded successfully.'',
                             state := Success\<rparr>,
                          [Fetch endpoint ''file'' file, Download nm blob])
                 \<and> (contentDisposition response = None
                       \<or> (\<exists>h. contentDisposition response = Some h
                              \<and> \<not> includesStr h ''filename='')
                     \<longrightarrow> nm = ''xbrl-export-'' @ digits now @ ''.xlsx'')
                 \<and> (\<forall>pre piece tail.
                       contentDisposition response = Some (pre @ ''filename='' @ piece @ tail)
                       \<and> \<not> includesStr (pre @ ''filename'') ''filename=''
                       \<and> ((tail = [] \<and> \<not> includesStr piece ''filename='')
                            \<or> (prefix ''filename='' tail
                                \<and> \<not> includesStr (piece @ ''filename'') ''filename=''))
                     \<longrightarrow> nm = (if removeQuotes piece \<noteq> [] then removeQuotes piece
                                else ''xbrl-export-'' @ digits now @ ''.xlsx''))))
         \<and> (\<forall>h. contentDisposition response = Some h \<and> includesStr h ''filename='' \<longrightarrow>
              (\<exists>pre piece tail. h = pre @ ''filename='' @ piece @ tail
                 \<and> \<not> includesStr (pre @ ''filename'') ''filename=''
                 \<and> ((tail = [] \<and> \<not> includesStr piece ''filename='')
                      \<or> (prefix ''filename='' tail
                          \<and> \<not> includesStr (piece @ ''filename'') ''filename=''))))
         \<and> (\<forall>p. removeQuotes p = filter (\<lambda>c. c \<noteq> CHR 0x22) p)"
proof (intro conjI allI impI)
  fix e assume "blobBody response = Rejected e"
  with assms show "handleSubmit now server s
              = (s\<lparr>error := Some \<lparr>message = (case e of JsError m \<Rightarrow> m
                                                | OtherThrown \<Rightarrow> ''Unexpected error occurred.''),
                                    details = None\<rparr>,
                   successMessage := None, state := Error\<rparr>,
                 [Fetch endpoint ''file'' file, ConsoleError])"
    by (rule submit_blob_unreadable)
next
  fix blob assume b: "blobBody response = Resolved blob"
  show "\<exists>nm. handleSubmit now server s
                       = (s\<lparr>error := None,
                             successMessage := Some ''Excel workbook downloaded successfully.'',
                             state := Success\<rparr>,
                          [Fetch endpoint ''file'' file, Download nm blob])
                 \<and> (contentDisposition response = None
                       \<or> (\<exists>h. contentDisposition response = Some h
                              \<and> \<not> includesStr h ''filename='')
                     \<longrightarrow> nm = ''xbrl-export-'' @ digits now @ ''.xlsx'')
                 \<and> (\<forall>pre piece tail.
                       contentDisposition response = Some (pre @ ''filename='' @ piece @ tail)
                       \<and> \<not> includesStr (pre @ ''filename'') ''filename=''
                       \<and> ((tail = [] \<and> \<not> includesStr piece ''filename='')
                            \<or> (prefix ''filename='' tail
                                \<and> \<not> includesStr (piece @ ''filename'') ''filename=''))
                     \<longrightarrow> nm = (if removeQuotes piece \<noteq> [] then removeQuotes piece
                                else ''xbrl-export-'' @ digits now @ ''.xlsx''))"
  proof (intro exI [of _ "downloadName now response"] conjI allI impI)
    show "handleSubmit now server s
          = (s\<lparr>error := None,
                successMessage := Some ''Excel workbook downloaded successfully.'',
                state := Success\<rparr>,
             [Fetch endpoint ''file'' file, Download (downloadName now response) blob])"
      using assms b by (rule submit_success)
  next
    assume "contentDisposition response = None
            \<or> (\<exists>h. contentDisposition response = Some h \<and> \<not> includesStr h ''filename='')"
    then have "suggestedFilename response = None"
      by (rule suggestedFilename_absent)
    then show "downloadName now response = ''xbrl-export-'' @ digits now @ ''.xlsx''"
      by (simp add: downloadName_def)
  next
    fix pre piece tail
    assume "contentDisposition response = Some (pre @ ''filename='' @ piece @ tail)
            \<and> \<not> includesStr (pre @ ''filename'') ''filename=''
            \<and> ((tail = [] \<and> \<not> includesStr piece ''filename='')
                 \<or> (prefix ''filename='' tail
                     \<and> \<not> includesStr (piece @ ''filename'') ''filename=''))"
    then have "suggestedFilename response = Some (removeQuotes piece)"
      by (intro suggestedFilename_piece) blast+
    then show "downloadName now response
                 = (if removeQuotes piece \<noteq> [] then removeQuotes piece
                    else ''xbrl-export-'' @ digits now @ ''.xlsx'')"
      by (simp add: downloadName_def)
  qed
next
  fix h assume "contentDisposition response = Some h \<and> includesStr h ''filename=''"
  then have "includesStr h ''filename=''" by simp
  then show "\<exists>pre piece tail. h = pre @ ''filename='' @ piece @ tail
                 \<and> \<not> includesStr (pre @ ''filename'') ''filename=''
                 \<and> ((tail = [] \<and> \<not> includesStr piece ''filename='')
                      \<or> (prefix ''filename='' tail
                          \<and> \<not> includesStr (piece @ ''filename'') ''filename=''))"
    by (rule header_decomposes)
next
  fix p show "removeQuotes p = filter (\<lambda>c. c \<noteq> CHR 0x22) p"
    by (simp add: removeQuotes_def)
qed

theorem success_download_witness:
  "selectedFile chosenApp = Some \<lparr>name = ''report.xml'', fsize = 1\<rparr>
   \<and> ok (successResponse (Some (''attachment; filename='' @ [CHR 0x22] @ ''out.xlsx'' @ [CHR 0x22]))
         ''PK'')
   \<and> handleSubmit 0
        (respondWith (successResponse
           (Some (''attachment; filename='' @ [CHR 0x22] @ ''out.xlsx'' @ [CHR 0x22])) ''PK''))
        chosenApp
       = (chosenApp\<lparr>successMessage := Some ''Excel workbook downloaded successfully.'',
                      state := Success\<rparr>,
          [Fetch endpoint ''file'' \<lparr>name = ''report.xml'', fsize = 1\<rparr>,
           Download ''out.xlsx'' ''PK''])
   \<and> handleSubmit 0
        (respondWith (successResponse
           (Some (''attachment; filename='' @ [CHR 0x22] @ ''out.xlsx'' @ [CHR 0x22] @ ''; size=3''))
           ''PK''))
        chosenApp
       = (chosenApp\<lparr>successMessage := Some ''Excel workbook downloaded successfully.'',
                      state := Success\<rparr>,
          [Fetch endpoint ''file'' \<lparr>name = ''report.xml'', fsize = 1\<rparr>,
           Download ''out.xlsx; size=3'' ''PK''])
   \<and> handleSubmit 0
        (respondWith (successResponse
           (Some ''attachment; filename=a.xlsx; filename=b.xlsx'') ''PK''))
        chosenApp
       = (chosenApp\<lparr>successMessage := Some ''Excel workbook downloaded successfully.'',
                      state := Success\<rparr>,
          [Fetch endpoint ''file'' \<lparr>name = ''report.xml'', fsize = 1\<rparr>,
           Download ''a.xlsx; '' ''PK''])
   \<and> handleSubmit 1762077600000
        (respondWith (successResponse (Some (''attachment; filename='' @ [CHR 0x22, CHR 0x22]))
           ''PK''))
        chosenApp
       = (chosenApp\<lparr>successMessage := Some ''Excel workbook downloaded successfully.'',
                      state := Success\<rparr>,
          [Fetch endpoint ''file'' \<lparr>name = ''report.xml'', fsize = 1\<rparr>,
           Download ''xbrl-export-1762077600000.xlsx'' ''PK''])
   \<and> handleSubmit 1762077600000 (respondWith (successResponse None ''PK'')) chosenApp
       = (chosenApp\<lparr>successMessage := Some ''Excel workbook downloaded successfully.'',
                      state := Success\<rparr>,
          [Fetch endpoint ''file'' \<lparr>name = ''report.xml'', fsize = 1\<rparr>,
           Download ''xbrl-export-1762077600000.xlsx'' ''PK''])
   \<and> handleSubmit 0
        (respondWith ((successResponse None ''PK'')
                        \<lparr>blobBody := Rejected (JsError ''network error'')\<rparr>))
        chosenApp
       = (chosenApp\<lparr>error := Some \<lparr>message = ''network error'', details = None\<rparr>,
                      state := Error\<rparr>,
          [Fetch endpoint ''file'' \<lparr>name = ''report.xml'', fsize = 1\<rparr>, ConsoleError])"
proof -
  define fl where "fl = \<lparr>name = ''report.xml'', fsize = 1\<rparr>"
  define result where
    "result nm = (chosenApp\<lparr>successMessage := Some ''Excel workbook downloaded successfully.'',
                             state := Success\<rparr>,
                  [Fetch endpoint ''file'' fl, Download nm ''PK''])" for nm
  define fallback where "fallback now = ''xbrl-export-'' @ digits now @ ''.xlsx''" for now
  define u where "u = (successResponse None ''PK'')\<lparr>blobBody := Rejected (JsError ''network error'')\<rparr>"
  have f: "selectedFile chosenApp = Some fl" by (simp add: chosenApp_def fl_def)
  have s: "respondWith r fl = Resolved r" for r by (simp add: respondWith_def)
  have a: "ok (successResponse h ''PK'')" for h
    by (simp add: successResponse_def ok_def)
  have b: "blobBody (successResponse h ''PK'') = Resolved ''PK''" for h
    by (simp add: successResponse_def)
  have cd: "contentDisposition (successResponse h ''PK'') = h" for h
    by (simp add: successResponse_def)
  have named: "handleSubmit now
                 (respondWith (successResponse (Some (pre @ ''filename='' @ piece @ tail)) ''PK''))
                 chosenApp
               = result (if removeQuotes piece \<noteq> [] then removeQuotes piece else fallback now)"
    if "\<not> includesStr (pre @ ''filename'') ''filename=''"
      and "(tail = [] \<and> \<not> includesStr piece ''filename='')
           \<or> (prefix ''filename='' tail \<and> \<not> includesStr (piece @ ''filename'') ''filename='')"
    for now pre piece tail
  proof -
    define r where "r = successResponse (Some (pre @ ''filename='' @ piece @ tail)) ''PK''"
    have prem: "contentDisposition r = Some (pre @ ''filename='' @ piece @ tail)
                \<and> \<not> includesStr (pre @ ''filename'') ''filename=''
                \<and> ((tail = [] \<and> \<not> includesStr piece ''filename='')
                     \<or> (prefix ''filename='' tail
                         \<and> \<not> includesStr (piece @ ''filename'') ''filename=''))"
      unfolding r_def by (intro conjI) (rule cd, rule that(1), rule that(2))
    have ar: "ok r" and br: "blobBody r = Resolved ''PK''"
      unfolding r_def by (rule a, rule b)
    from success_download
           [where server = "respondWith r", OF f s ar, of now, THEN conjunct2,
            THEN conjunct1, THEN spec, THEN mp, OF br]
    obtain nm
      where run: "handleSubmit now (respondWith r) chosenApp
                    = (chosenApp\<lparr>error := None,
                          successMessage := Some ''Excel workbook downloaded successfully.'',
                          state := Success\<rparr>,
                       [Fetch endpoint ''file'' fl, Download nm ''PK''])"
        and pc: "\<forall>pre piece tail.
                       contentDisposition r = Some (pre @ ''filename='' @ piece @ tail)
                       \<and> \<not> includesStr (pre @ ''filename'') ''filename=''
                       \<and> ((tail = [] \<and> \<not> includesStr piece ''filename='')
                            \<or> (prefix ''filename='' tail
                                \<and> \<not> includesStr (piece @ ''filename'') ''filename=''))
                     \<longrightarrow> nm = (if removeQuotes piece \<noteq> [] then removeQuotes piece
                                else ''xbrl-export-'' @ digits now @ ''.xlsx'')"
      by (elim exE conjE)
    from pc [THEN spec, THEN spec, THEN spec, THEN mp, OF prem]
    have "nm = (if removeQuotes piece \<noteq> [] then removeQuotes piece else fallback now)"
      by (simp only: fallback_def)
    with run show ?thesis
      unfolding r_def result_def by (simp add: chosenApp_def)
  qed
  have unnamed: "handleSubmit now (respondWith (successResponse None ''PK'')) chosenApp
                   = result (fallback now)" for now
  proof -
    define r where "r = successResponse None ''PK''"
    have prem: "contentDisposition r = None
                \<or> (\<exists>h. contentDisposition r = Some h \<and> \<not> includesStr h ''filename='')"
      unfolding r_def by (rule disjI1) (rule cd)
    have ar: "ok r" and br: "blobBody r = Resolved ''PK''"
      unfolding r_def by (rule a, rule b)
    from success_download
           [where server = "respondWith r", OF f s ar, of now, THEN conjunct2,
            THEN conjunct1, THEN spec, THEN mp, OF br]
    obtain nm
      where run: "handleSubmit now (respondWith r) chosenApp
                    = (chosenApp\<lparr>error := None,
                          successMessage := Some ''Excel workbook downloaded successfully.'',
                          state := Success\<rparr>,
                       [Fetch endpoint ''file'' fl, Download nm ''PK''])"
        and ab: "contentDisposition r = None
                   \<or> (\<exists>h. contentDisposition r = Some h \<and> \<not> includesStr h ''filename='')
                 \<longrightarrow> nm = ''xbrl-export-'' @ digits now @ ''.xlsx''"
      by (elim exE conjE)
    from ab [THEN mp, OF prem] have "nm = fallback now"
      by (simp only: fallback_def)
    with run show ?thesis
      unfolding r_def result_def by (simp add: chosenApp_def)
  qed
  have h: "digits 1762077600000 = ''1762077600000''"
    by (simp add: digits.simps)
  have 1: "handleSubmit 0
             (respondWith (successResponse
                (Some (''attachment; '' @ ''filename='' @ ([CHR 0x22] @ ''out.xlsx'' @ [CHR 0x22]) @ []))
                ''PK'')) chosenApp
             = result ''out.xlsx''"
    by (subst named) (simp_all add: removeQuotes_def)
  have 2: "handleSubmit 0
             (respondWith (successResponse
                (Some (''attachment; '' @ ''filename=''
                        @ ([CHR 0x22] @ ''out.xlsx'' @ [CHR 0x22] @ ''; size=3'') @ []))
                ''PK'')) chosenApp
             = result ''out.xlsx; size=3''"
    by (subst named) (simp_all add: removeQuotes_def)
  have 3: "handleSubmit 0
             (respondWith (successResponse
                (Some (''attachment; '' @ ''filename='' @ ''a.xlsx; '' @ ''filename=b.xlsx''))
                ''PK'')) chosenApp
             = result ''a.xlsx; ''"
    by (subst named) (simp_all add: removeQuotes_def)
  have 4: "handleSubmit 1762077600000
             (respondWith (successResponse
                (Some (''attachment; '' @ ''filename='' @ [CHR 0x22, CHR 0x22] @ []))
                ''PK'')) chosenApp
             = result ''xbrl-export-1762077600000.xlsx''"
    by (subst named) (simp_all add: removeQuotes_def fallback_def h)
  have 5: "handleSubmit 1762077600000 (respondWith (successResponse None ''PK'')) chosenApp
             = result ''xbrl-export-1762077600000.xlsx''"
    by (simp add: unnamed fallback_def h)
  have ou: "ok u" and bu: "blobBody u = Rejected (JsError ''network error'')"
    by (simp_all add: u_def successResponse_def ok_def)
  from success_download
         [where server = "respondWith u", OF f s ou, of 0, THEN conjunct1, THEN spec, THEN mp,
          OF bu]
  have 6: "handleSubmit 0 (respondWith u) chosenApp
             = (chosenApp\<lparr>error := Some \<lparr>message = ''network error'', details = None\<rparr>,
                            state := Error\<rparr>, [Fetch endpoint ''file'' fl, ConsoleError])"
    by (simp add: chosenApp_def)
  from f a 1 2 3 4 5 6 show ?thesis
    unfolding result_def fl_def u_def by simp
qed

section \<open>Facts about the trail animation\<close>

text \<open>The loop of \<open>animate\<close>, by its invariant: once the loop has reached \<open>index\<close>,
  the elements before it are final, and each later element is eased from its old value
  towards the new value of its predecessor.\<close>

lemma animateLoop_done:
  "animateLoop target prev TRAIL_LENGTH v = Some v"
  by (simp add: animateLoop.simps)

lemma animateLoop_unfold:
  assumes "index < TRAIL_LENGTH" and "animateBody target prev index v = Some v1"
  shows "animateLoop target prev index v = animateLoop target prev (index + 1) v1"
  using assms by (subst animateLoop.simps) simp

lemma animateBody_eased:
  assumes "index < length prev"
  shows "\<exists>q. animateBody target prev index v
               = Some \<lparr>nextTrail = (nextTrail v)[index := q], leadX = px q, leadY = py q\<rparr>
             \<and> eased target index (prev ! index) (leadX v) (leadY v) q"
proof -
  define q where
    "q = \<lparr>px = px (prev ! index) + (leadX v - px (prev ! index)) * easeOf index,
          py = py (prev ! index) + (leadY v - py (prev ! index)) * easeOf index,
          opacity = opacity (prev ! index)
                    + (opacityTargetOf (active target) index - opacity (prev ! index)) * 0.18\<rparr>"
  have "animateBody target prev index v
          = Some \<lparr>nextTrail = (nextTrail v)[index := q], leadX = px q, leadY = py q\<rparr>"
    using assms by (simp add: animateBody_def Let_def q_def easeOf_def opacityTargetOf_def)
  moreover have "eased target index (prev ! index) (leadX v) (leadY v) q"
    by (simp add: eased_def q_def)
  ultimately show ?thesis by blast
qed

lemma animateLoop_invariant:
  assumes "length prev = TRAIL_LENGTH" and "length (nextTrail v) = TRAIL_LENGTH"
    and "index \<le> TRAIL_LENGTH"
  shows "\<exists>v'. animateLoop target prev index v = Some v'
           \<and> length (nextTrail v') = TRAIL_LENGTH
           \<and> (\<forall>i<index. nextTrail v' ! i = nextTrail v ! i)
           \<and> (\<forall>i. index \<le> i \<and> i < TRAIL_LENGTH \<longrightarrow>
                 eased target i (prev ! i)
                   (if i = index then leadX v else px (nextTrail v' ! (i - 1)))
                   (if i = index then leadY v else py (nextTrail v' ! (i - 1)))
                   (nextTrail v' ! i))"
  using assms
proof (induction target prev index v rule: animateLoop.induct)
  case (1 target prev index v)
  show ?case
  proof (cases "index < TRAIL_LENGTH")
    case False
    with "1.prems" have "index = TRAIL_LENGTH" by simp
    with "1.prems" show ?thesis by (auto simp add: animateLoop_done)
  next
    case True
    with "1.prems" have "index < length prev" by simp
    from animateBody_eased [OF this] obtain q
      where body: "animateBody target prev index v
                     = Some \<lparr>nextTrail = (nextTrail v)[index := q], leadX = px q, leadY = py q\<rparr>"
        and q: "eased target index (prev ! index) (leadX v) (leadY v) q"
      by blast
    define v1 where "v1 = \<lparr>nextTrail = (nextTrail v)[index := q], leadX = px q, leadY = py q\<rparr>"
    have len1: "length (nextTrail v1) = TRAIL_LENGTH"
      using "1.prems" by (simp add: v1_def)
    have "index + 1 \<le> TRAIL_LENGTH" using True by simp
    from "1.IH" [OF True body [folded v1_def] "1.prems"(1) len1 this] obtain v'
      where run: "animateLoop target prev (index + 1) v1 = Some v'"
        and len: "length (nextTrail v') = TRAIL_LENGTH"
        and kept: "\<forall>i<index + 1. nextTrail v' ! i = nextTrail v1 ! i"
        and rest: "\<forall>i. index + 1 \<le> i \<and> i < TRAIL_LENGTH \<longrightarrow>
                 eased target i (prev ! i)
                   (if i = index + 1 then leadX v1 else px (nextTrail v' ! (i - 1)))
                   (if i = index + 1 then leadY v1 else py (nextTrail v' ! (i - 1)))
                   (nextTrail v' ! i)"
      by blast
    have at: "nextTrail v' ! index = q"
      using kept True "1.prems" by (simp add: v1_def)
    have before: "\<forall>i<index. nextTrail v' ! i = nextTrail v ! i"
      using kept by (simp add: v1_def)
    have "animateLoop target prev index v = Some v'"
      using animateLoop_unfold [OF True body] run by (simp add: v1_def)
    moreover have "\<forall>i. index \<le> i \<and> i < TRAIL_LENGTH \<longrightarrow>
                 eased target i (prev ! i)
                   (if i = index then leadX v else px (nextTrail v' ! (i - 1)))
                   (if i = index then leadY v else py (nextTrail v' ! (i - 1)))
                   (nextTrail v' ! i)"
    proof (intro allI impI)
      fix i assume i: "index \<le> i \<and> i < TRAIL_LENGTH"
      show "eased target i (prev ! i)
                   (if i = index then leadX v else px (nextTrail v' ! (i - 1)))
                   (if i = index then leadY v else py (nextTrail v' ! (i - 1)))
                   (nextTrail v' ! i)"
      proof (cases "i = index")
        case True
        with q at show ?thesis by simp
      next
        case False
        with i have "index + 1 \<le> i \<and> i < TRAIL_LENGTH" by simp
        with rest have e: "eased target i (prev ! i)
                   (if i = index + 1 then leadX v1 else px (nextTrail v' ! (i - 1)))
                   (if i = index + 1 then leadY v1 else py (nextTrail v' ! (i - 1)))
                   (nextTrail v' ! i)" by blast
        show ?thesis
        proof (cases "i = index + 1")
          case True
          with e at False show ?thesis by (simp add: v1_def)
        next
          case False
          with e \<open>i \<noteq> index\<close> show ?thesis by simp
        qed
      qed
    qed
    ultimately show ?thesis using len before by blast
  qed
qed

lemma animate_step:
  assumes "length prev = TRAIL_LENGTH"
  shows "\<exists>new. animate target prev = Some new \<and> length new = TRAIL_LENGTH
           \<and> (\<forall>i<TRAIL_LENGTH.
                 eased target i (prev ! i) (leadOf px (tx target) new i)
                   (leadOf py (ty target) new i) (new ! i))"
proof -
  define v where "v = \<lparr>nextTrail = prev, leadX = tx target, leadY = ty target\<rparr>"
  have "length (nextTrail v) = TRAIL_LENGTH" using assms by (simp add: v_def)
  from animateLoop_invariant [OF assms this, of 0 target] obtain v'
    where run: "animateLoop target prev 0 v = Some v'"
      and len: "length (nextTrail v') = TRAIL_LENGTH"
      and all: "\<forall>i. 0 \<le> i \<and> i < TRAIL_LENGTH \<longrightarrow>
                 eased target i (prev ! i)
                   (if i = 0 then leadX v else px (nextTrail v' ! (i - 1)))
                   (if i = 0 then leadY v else py (nextTrail v' ! (i - 1)))
                   (nextTrail v' ! i)"
    by auto
  have "animate target prev = Some (nextTrail v')"
    using run by (simp add: animate_def v_def)
  moreover have "\<forall>i<TRAIL_LENGTH.
                 eased target i (prev ! i) (leadOf px (tx target) (nextTrail v') i)
                   (leadOf py (ty target) (nextTrail v') i) (nextTrail v' ! i)"
    using all unfolding leadOf_def v_def by auto
  ultimately show ?thesis using len by blast
qed

lemma TRAIL_LENGTH_6: "TRAIL_LENGTH = 6"
  by (simp add: TRAIL_LENGTH_def)








text \<open>
  C8. In every animation step on a chain of six elements, for every index \<open>i\<close> from
  0 to 5: the lead is the pointer target for \<open>i = 0\<close> and otherwise the position of
  element \<open>i - 1\<close> as newly computed in the same step; the new position is the old
  position plus (lead minus old position) times 0.20 for \<open>i = 0\<close> and 0.24
  otherwise; the opacity target is \<open>max 0 (0.85 - i * 0.13)\<close> when the pointer is
  active and 0 otherwise; the new opacity is the old opacity plus (opacity target minus
  old opacity) times 0.18. The step does not fail and keeps the length. (Exact real
  arithmetic stands for the doubles of the source.)
\<close>

theorem animate_formulas:
  assumes "length prev = 6"
  shows "\<exists>new. animate target prev = Some new \<and> length new = 6
           \<and> (\<forall>i<6.
                 px (new ! i)
                   = px (prev ! i)
                     + ((if i = 0 then tx target else px (new ! (i - 1))) - px (prev ! i))
                       * (if i = 0 then 0.20 else 0.24)
               \<and> py (new ! i)
                   = py (prev ! i)
                     + ((if i = 0 then ty target else py (new ! (i - 1))) - py (prev ! i))
                       * (if i = 0 then 0.20 else 0.24)
               \<and> opacity (new ! i)
                   = opacity (prev ! i)
                     + ((if active target then max 0 (0.85 - real i * 0.13) else 0)
                        - opacity (prev ! i)) * 0.18)"
proof -
  from assms have "length prev = TRAIL_LENGTH" by (simp add: TRAIL_LENGTH_6)
  from animate_step [OF this, of target] obtain new
    where "animate target prev = Some new" and "length new = TRAIL_LENGTH"
      and "\<forall>i<TRAIL_LENGTH.
                 eased target i (prev ! i) (leadOf px (tx target) new i)
                   (leadOf py (ty target) new i) (new ! i)"
    by blast
  then show ?thesis
    unfolding eased_def leadOf_def easeOf_def opacityTargetOf_def TRAIL_LENGTH_6
    by (intro exI [of _ new]) simp
qed

theorem animate_formulas_witness:
  "length initialTrail = 6
   \<and> (\<exists>new. animate \<lparr>tx = 100, ty = 50, active = True\<rparr> initialTrail = Some new
         \<and> px (new ! 0) = 20 \<and> py (new ! 0) = 10 \<and> opacity (new ! 0) = 0.153
         \<and> px (new ! 1) = 4.8 \<and> py (new ! 1) = 2.4 \<and> opacity (new ! 1) = 0.1296)"
proof -
  define T where "T = \<lparr>tx = 100, ty = 50, active = True\<rparr>"
  have len: "length initialTrail = 6"
    by (simp add: initialTrail_def TRAIL_LENGTH_def)
  have i0: "initialTrail ! 0 = \<lparr>px = 0, py = 0, opacity = 0\<rparr>"
    and i1: "initialTrail ! Suc 0 = \<lparr>px = 0, py = 0, opacity = 0\<rparr>"
    by (simp_all add: initialTrail_def TRAIL_LENGTH_def)
  from animate_formulas [OF len, of T] obtain new
    where run: "animate T initialTrail = Some new"
      and eqs: "\<forall>i<6.
                 px (new ! i)
                   = px (initialTrail ! i)
                     + ((if i = 0 then tx T else px (new ! (i - 1))) - px (initialTrail ! i))
                       * (if i = 0 then 0.20 else 0.24)
               \<and> py (new ! i)
                   = py (initialTrail ! i)
                     + ((if i = 0 then ty T else py (new ! (i - 1))) - py (initialTrail ! i))
                       * (if i = 0 then 0.20 else 0.24)
               \<and> opacity (new ! i)
                   = opacity (initialTrail ! i)
                     + ((if active T then max 0 (0.85 - real i * 0.13) else 0)
                        - opacity (initialTrail ! i)) * 0.18"
    by blast
  from eqs [THEN spec, of 0] have e0: "px (new ! 0) = 20 \<and> py (new ! 0) = 10 \<and> opacity (new ! 0) = 0.153"
    by (simp add: i0 T_def)
  from eqs [THEN spec, of 1] e0 have e1: "px (new ! 1) = 4.8 \<and> py (new ! 1) = 2.4 \<and> opacity (new ! 1) = 0.1296"
    by (simp add: i1 T_def)
  from run e0 e1 have "\<exists>new. animate T initialTrail = Some new
         \<and> px (new ! 0) = 20 \<and> py (new ! 0) = 10 \<and> opacity (new ! 0) = 0.153
         \<and> px (new ! 1) = 4.8 \<and> py (new ! 1) = 2.4 \<and> opacity (new ! 1) = 0.1296"
    by blast
  with len show ?thesis unfolding T_def by blast
qed






end
